theory Spec2Isabelle
  imports Main "HOL-Library.Multiset" "HOL-Library.AList"
begin

section \<open>Data model\<close>

text \<open>
  The repository holds two variants of one program: \<^verbatim>\<open>src/main.go\<close> (with timing
  aggregation) and \<^verbatim>\<open>src/unnamed/part_000\<close> (without). Definitions of the second
  variant carry the suffix \<open>0\<close>.
\<close>

text \<open>\<^verbatim>\<open>time.Duration\<close>: a signed count of nanoseconds. The program only compares
  durations, so no arithmetic can overflow.\<close>

type_synonym duration = int

definition Millisecond :: duration where
  "Millisecond = 1000000"

definition Second :: duration where
  "Second = 1000 * Millisecond"

text \<open>\<^verbatim>\<open>type BrasilAPICEP struct\<close> and \<^verbatim>\<open>type ViaCEP struct\<close>.\<close>

record BrasilAPICEP =
  Cep :: string
  State :: string
  City :: string
  Neighborhood :: string
  Street :: string
  Service :: string

record ViaCEP =
  Cep :: string
  Logradouro :: string
  Complemento :: string
  Bairro :: string
  Localidade :: string
  Uf :: string
  Ibge :: string
  Gia :: string
  Ddd :: string
  Siafi :: string

text \<open>The struct tags \<^verbatim>\<open>`json:"..."`\<close> of the two structs: the field that a JSON member
  name is declared for.\<close>

fun BrasilAPICEP_tag :: "string \<Rightarrow> (BrasilAPICEP \<Rightarrow> string) option" where
  "BrasilAPICEP_tag name =
     (if name = ''cep'' then Some BrasilAPICEP.Cep
      else if name = ''state'' then Some State
      else if name = ''city'' then Some City
      else if name = ''neighborhood'' then Some Neighborhood
      else if name = ''street'' then Some Street
      else if name = ''service'' then Some Service
      else None)"

fun ViaCEP_tag :: "string \<Rightarrow> (ViaCEP \<Rightarrow> string) option" where
  "ViaCEP_tag name =
     (if name = ''cep'' then Some ViaCEP.Cep
      else if name = ''logradouro'' then Some Logradouro
      else if name = ''complemento'' then Some Complemento
      else if name = ''bairro'' then Some Bairro
      else if name = ''localidade'' then Some Localidade
      else if name = ''uf'' then Some Uf
      else if name = ''ibge'' then Some Ibge
      else if name = ''gia'' then Some Gia
      else if name = ''ddd'' then Some Ddd
      else if name = ''siafi'' then Some Siafi
      else None)"

text \<open>The dynamic values held by \<^verbatim>\<open>Data interface{}\<close>: nil (the zero value, on every
  failure) or one of the two structs.\<close>

datatype payload = NilData | BrasilData BrasilAPICEP | ViaData ViaCEP

text \<open>Values of Go's \<^verbatim>\<open>error\<close> that reach a Response: an error returned by a library
  call (\<^verbatim>\<open>net/http\<close>, \<^verbatim>\<open>io\<close>, \<^verbatim>\<open>encoding/json\<close>), kept opaque with its message, or
  the program's own \<^verbatim>\<open>fmt.Errorf("status code: %d", resp.StatusCode)\<close>.\<close>

datatype go_error = LibraryError string | StatusCodeError int

text \<open>\<^verbatim>\<open>type Response struct\<close>. The variant without aggregation has the first three
  fields; \<^verbatim>\<open>src/main.go\<close> adds \<open>Duration\<close>.\<close>

record Response0 =
  Data :: payload
  APIName :: string
  Error :: "go_error option"

record Response = Response0 +
  Duration :: duration

section \<open>The outside world\<close>

text \<open>
  What the library calls of one Lookup Task answer. They are not code of this repository,
  so a task takes them as a parameter and every theorem holds for all of them.
  \<^item> \<open>newRequestWithContext url\<close>: \<^verbatim>\<open>http.NewRequestWithContext(ctx, http.MethodGet, url, nil)\<close>,
    an error or the request;
  \<^item> \<open>clientDo req\<close>: \<^verbatim>\<open>client.Do(req)\<close>, an error (a cancelled or expired context is one)
    or the response;
  \<^item> \<open>Body resp\<close>: what \<^verbatim>\<open>io.ReadAll(resp.Body)\<close> gives, an error or the bytes;
  \<^item> \<open>unmarshalBrasilAPICEP\<close>, \<open>unmarshalViaCEP\<close>: \<^verbatim>\<open>json.Unmarshal(body, &data)\<close> at the
    two struct types;
  \<^item> \<open>timeSince\<close>: the reading of \<^verbatim>\<open>time.Since(startTime)\<close>; every path of a task takes
    exactly one.
\<close>

type_synonym request = string

record http_response =
  StatusCode :: int
  Body :: "go_error + string"

record world =
  newRequestWithContext :: "string \<Rightarrow> go_error + request"
  clientDo :: "request \<Rightarrow> go_error + http_response"
  unmarshalBrasilAPICEP :: "string \<Rightarrow> go_error + BrasilAPICEP"
  unmarshalViaCEP :: "string \<Rightarrow> go_error + ViaCEP"
  timeSince :: duration

definition StatusOK :: int where
  "StatusOK = 200"

section \<open>Effects\<close>

text \<open>What the program prints, one constructor per \<^verbatim>\<open>fmt.Println\<close>/\<^verbatim>\<open>fmt.Printf\<close> call,
  with the arguments of the call. A duration argument is printed as
  \<^verbatim>\<open>%.3fs\<close> of its \<^verbatim>\<open>Seconds()\<close>; \<open>Diferenca s f\<close> prints the float64 difference
  \<^verbatim>\<open>s.Seconds()-f.Seconds()\<close>.\<close>

datatype out =
    Usage
  | Buscando string
  | ErroNaAPI string go_error
  | RespostaMaisRapida string duration
  | RespostaMaisRapida0 string
  | Endereco string string string string string
  | ErroTimeout
  | Comparativo
  | APIMaisRapida string duration
  | APIMaisLenta string duration
  | Diferenca duration duration
  | Tempo string duration
  | NaoFoiPossivel

datatype goroutine = FetchBrasilAPI string | FetchViaCEP string | Aggregator

text \<open>
  The operations a goroutine performs, in program order. A goroutine is modelled by the
  list of the operations it executes, given the answers of the outside world.
\<close>

datatype 'r op =
    Print out
  | WithTimeout duration
  | MakeChan nat
  | WgAdd nat
  | MakeMap
  | Go goroutine
  | Recv 'r
  | CtxDone
  | TimeAfter duration
  | Sleep duration
  | Cancel
  | NewRequest string
  | ClientDo request
  | ReadAll
  | BodyClose
  | Unmarshal
  | Lock
  | MapAssign string duration
  | Unlock
  | Send 'r
  | WgDone
  | WgWait

section \<open>Lookup Tasks\<close>

text \<open>\<^verbatim>\<open>fetchBrasilAPI\<close> of \<^verbatim>\<open>src/main.go\<close>. The deferred calls run at the return, last
  deferred first: \<^verbatim>\<open>resp.Body.Close()\<close>, then \<^verbatim>\<open>wg.Done()\<close>.\<close>

definition fetchBrasilAPI :: "world \<Rightarrow> string \<Rightarrow> Response op list" where
  "fetchBrasilAPI w cep =
    (let apiName = ''BrasilAPI'';
         url = ''https://brasilapi.com.br/api/cep/v1/'' @ cep
     in NewRequest url #
       (case newRequestWithContext w url of
          Inl err \<Rightarrow>
            [Send \<lparr>Data = NilData, APIName = apiName, Error = Some err, Duration = timeSince w\<rparr>,
             WgDone]
        | Inr req \<Rightarrow> ClientDo req #
           (case clientDo w req of
              Inl err \<Rightarrow>
                [Send \<lparr>Data = NilData, APIName = apiName, Error = Some err, Duration = timeSince w\<rparr>,
                 WgDone]
            | Inr resp \<Rightarrow>
                if StatusCode resp \<noteq> StatusOK then
                  [Send \<lparr>Data = NilData, APIName = apiName,
                         Error = Some (StatusCodeError (StatusCode resp)), Duration = timeSince w\<rparr>,
                   BodyClose, WgDone]
                else ReadAll #
                 (case Body resp of
                    Inl err \<Rightarrow>
                      [Send \<lparr>Data = NilData, APIName = apiName, Error = Some err,
                             Duration = timeSince w\<rparr>,
                       BodyClose, WgDone]
                  | Inr body \<Rightarrow> Unmarshal #
                     (case unmarshalBrasilAPICEP w body of
                        Inl err \<Rightarrow>
                          [Send \<lparr>Data = NilData, APIName = apiName, Error = Some err,
                                 Duration = timeSince w\<rparr>,
                           BodyClose, WgDone]
                      | Inr data \<Rightarrow>
                          (let duration = timeSince w
                           in [Lock, MapAssign apiName duration, Unlock,
                               Send \<lparr>Data = BrasilData data, APIName = apiName, Error = None,
                                     Duration = duration\<rparr>,
                               BodyClose, WgDone]))))))"

text \<open>\<^verbatim>\<open>fetchViaCEP\<close> of \<^verbatim>\<open>src/main.go\<close>.\<close>

definition fetchViaCEP :: "world \<Rightarrow> string \<Rightarrow> Response op list" where
  "fetchViaCEP w cep =
    (let apiName = ''ViaCEP'';
         url = ''http://viacep.com.br/ws/'' @ cep @ ''/json/''
     in NewRequest url #
       (case newRequestWithContext w url of
          Inl err \<Rightarrow>
            [Send \<lparr>Data = NilData, APIName = apiName, Error = Some err, Duration = timeSince w\<rparr>,
             WgDone]
        | Inr req \<Rightarrow> ClientDo req #
           (case clientDo w req of
              Inl err \<Rightarrow>
                [Send \<lparr>Data = NilData, APIName = apiName, Error = Some err, Duration = timeSince w\<rparr>,
                 WgDone]
            | Inr resp \<Rightarrow>
                if StatusCode resp \<noteq> StatusOK then
                  [Send \<lparr>Data = NilData, APIName = apiName,
                         Error = Some (StatusCodeError (StatusCode resp)), Duration = timeSince w\<rparr>,
                   BodyClose, WgDone]
                else ReadAll #
                 (case Body resp of
                    Inl err \<Rightarrow>
                      [Send \<lparr>Data = NilData, APIName = apiName, Error = Some err,
                             Duration = timeSince w\<rparr>,
                       BodyClose, WgDone]
                  | Inr body \<Rightarrow> Unmarshal #
                     (case unmarshalViaCEP w body of
                        Inl err \<Rightarrow>
                          [Send \<lparr>Data = NilData, APIName = apiName, Error = Some err,
                                 Duration = timeSince w\<rparr>,
                           BodyClose, WgDone]
                      | Inr data \<Rightarrow>
                          (let duration = timeSince w
                           in [Lock, MapAssign apiName duration, Unlock,
                               Send \<lparr>Data = ViaData data, APIName = apiName, Error = None,
                                     Duration = duration\<rparr>,
                               BodyClose, WgDone]))))))"

text \<open>\<^verbatim>\<open>fetchBrasilAPI\<close> and \<^verbatim>\<open>fetchViaCEP\<close> of \<^verbatim>\<open>src/unnamed/part_000\<close>: no wait group,
  no timing map, no duration.\<close>

definition fetchBrasilAPI0 :: "world \<Rightarrow> string \<Rightarrow> Response0 op list" where
  "fetchBrasilAPI0 w cep =
    (let url = ''https://brasilapi.com.br/api/cep/v1/'' @ cep
     in NewRequest url #
       (case newRequestWithContext w url of
          Inl err \<Rightarrow> [Send \<lparr>Data = NilData, APIName = ''BrasilAPI'', Error = Some err\<rparr>]
        | Inr req \<Rightarrow> ClientDo req #
           (case clientDo w req of
              Inl err \<Rightarrow> [Send \<lparr>Data = NilData, APIName = ''BrasilAPI'', Error = Some err\<rparr>]
            | Inr resp \<Rightarrow>
                if StatusCode resp \<noteq> StatusOK then
                  [Send \<lparr>Data = NilData, APIName = ''BrasilAPI'',
                         Error = Some (StatusCodeError (StatusCode resp))\<rparr>,
                   BodyClose]
                else ReadAll #
                 (case Body resp of
                    Inl err \<Rightarrow>
                      [Send \<lparr>Data = NilData, APIName = ''BrasilAPI'', Error = Some err\<rparr>, BodyClose]
                  | Inr body \<Rightarrow> Unmarshal #
                     (case unmarshalBrasilAPICEP w body of
                        Inl err \<Rightarrow>
                          [Send \<lparr>Data = NilData, APIName = ''BrasilAPI'', Error = Some err\<rparr>,
                           BodyClose]
                      | Inr data \<Rightarrow>
                          [Send \<lparr>Data = BrasilData data, APIName = ''BrasilAPI'', Error = None\<rparr>,
                           BodyClose])))))"

definition fetchViaCEP0 :: "world \<Rightarrow> string \<Rightarrow> Response0 op list" where
  "fetchViaCEP0 w cep =
    (let url = ''http://viacep.com.br/ws/'' @ cep @ ''/json/''
     in NewRequest url #
       (case newRequestWithContext w url of
          Inl err \<Rightarrow> [Send \<lparr>Data = NilData, APIName = ''ViaCEP'', Error = Some err\<rparr>]
        | Inr req \<Rightarrow> ClientDo req #
           (case clientDo w req of
              Inl err \<Rightarrow> [Send \<lparr>Data = NilData, APIName = ''ViaCEP'', Error = Some err\<rparr>]
            | Inr resp \<Rightarrow>
                if StatusCode resp \<noteq> StatusOK then
                  [Send \<lparr>Data = NilData, APIName = ''ViaCEP'',
                         Error = Some (StatusCodeError (StatusCode resp))\<rparr>,
                   BodyClose]
                else ReadAll #
                 (case Body resp of
                    Inl err \<Rightarrow>
                      [Send \<lparr>Data = NilData, APIName = ''ViaCEP'', Error = Some err\<rparr>, BodyClose]
                  | Inr body \<Rightarrow> Unmarshal #
                     (case unmarshalViaCEP w body of
                        Inl err \<Rightarrow>
                          [Send \<lparr>Data = NilData, APIName = ''ViaCEP'', Error = Some err\<rparr>,
                           BodyClose]
                      | Inr data \<Rightarrow>
                          [Send \<lparr>Data = ViaData data, APIName = ''ViaCEP'', Error = None\<rparr>,
                           BodyClose])))))"

text \<open>The Responses a goroutine sends, in order, and the entries it assigns in the
  timing map, in order.\<close>

fun sent :: "'r op list \<Rightarrow> 'r list" where
  "sent [] = []"
| "sent (Send r # ops) = r # sent ops"
| "sent (_ # ops) = sent ops"

fun assigned :: "'r op list \<Rightarrow> (string \<times> duration) list" where
  "assigned [] = []"
| "assigned (MapAssign k v # ops) = (k, v) # assigned ops"
| "assigned (_ # ops) = assigned ops"

section \<open>Timing Aggregator\<close>

text \<open>The body of the first \<^verbatim>\<open>for api, duration := range timingResults\<close> loop, over
  the entries in the order the iteration visits them.\<close>

fun fastest_slowest ::
  "(string \<times> duration) list \<Rightarrow> string \<times> duration \<times> string \<times> duration \<Rightarrow>
   string \<times> duration \<times> string \<times> duration" where
  "fastest_slowest [] acc = acc"
| "fastest_slowest ((api, duration) # rest) (fastest, fastestTime, slowest, slowestTime) =
     (let (fastest', fastestTime') =
            (if fastest = [] \<or> duration < fastestTime then (api, duration)
             else (fastest, fastestTime));
          (slowest', slowestTime') =
            (if slowest = [] \<or> duration > slowestTime then (api, duration)
             else (slowest, slowestTime))
      in fastest_slowest rest (fastest', fastestTime', slowest', slowestTime'))"

text \<open>
  The goroutine \<^verbatim>\<open>go func() { wg.Wait(); ... }()\<close> of \<^verbatim>\<open>src/main.go\<close>.
  \<open>timingResults\<close> is the map as the goroutine finds it once it holds the lock.
  Go leaves the order of a \<^verbatim>\<open>range\<close> over a map unspecified, so the orders of the two
  loops are parameters, \<open>order1\<close> and \<open>order2\<close>: each is a permutation of the entries.
  The variables \<^verbatim>\<open>fastest\<close>, \<^verbatim>\<open>slowest\<close> start as the empty string and the two times
  as 0. The deferred \<^verbatim>\<open>timingMutex.Unlock()\<close> runs at the return.
\<close>

definition aggregator ::
  "(string \<times> duration) list \<Rightarrow> (string \<times> duration) list \<Rightarrow> (string \<times> duration) list \<Rightarrow>
   'r op list" where
  "aggregator timingResults order1 order2 =
     [WgWait, Print Comparativo, Lock] @
     (if length timingResults > 1 then
        (case fastest_slowest order1 ([], 0, [], 0) of
           (fastest, fastestTime, slowest, slowestTime) \<Rightarrow>
             [Print (APIMaisRapida fastest fastestTime),
              Print (APIMaisLenta slowest slowestTime),
              Print (Diferenca slowestTime fastestTime)] @
             map (\<lambda>(api, duration). Print (Tempo api duration)) order2)
      else [Print NaoFoiPossivel]) @
     [Unlock]"

section \<open>Race Coordinator\<close>

text \<open>The case a \<^verbatim>\<open>select\<close> statement of \<^verbatim>\<open>main\<close> takes: the first one receives
  \<open>result\<close> from the channel or finds the context done; the second one receives a
  value it discards or finds \<^verbatim>\<open>time.After(100 * time.Millisecond)\<close> fired.\<close>

datatype 'r select1 = Received 'r | Deadline

datatype 'r select2 = Discarded 'r | After

text \<open>\<^verbatim>\<open>main\<close> of \<^verbatim>\<open>src/main.go\<close>; \<open>args\<close> is \<^verbatim>\<open>os.Args\<close>. The deferred
  \<^verbatim>\<open>cancel()\<close> runs at every return after its \<^verbatim>\<open>defer\<close> statement.\<close>

definition main :: "string list \<Rightarrow> Response select1 \<Rightarrow> Response select2 \<Rightarrow> Response op list" where
  "main args sel1 sel2 =
    (if length args < 2 then [Print Usage]
     else
       (let cep = args ! 1
        in [Print (Buscando cep), WithTimeout (1 * Second), MakeChan 2, WgAdd 2, MakeMap,
            Go (FetchBrasilAPI cep), Go (FetchViaCEP cep)] @
           (case sel1 of
              Received result \<Rightarrow> Recv result #
               (case Error result of
                  Some err \<Rightarrow> [Print (ErroNaAPI (APIName result) err), Cancel]
                | None \<Rightarrow>
                    Print (RespostaMaisRapida (APIName result) (Duration result)) #
                    (case Data result of
                       BrasilData data \<Rightarrow>
                         [Print (Endereco (BrasilAPICEP.Cep data) (State data) (City data)
                                   (Neighborhood data) (Street data))]
                     | ViaData data \<Rightarrow>
                         [Print (Endereco (ViaCEP.Cep data) (Uf data) (Localidade data)
                                   (Bairro data) (Logradouro data))]
                     | NilData \<Rightarrow> []) @
                    Go Aggregator #
                    (case sel2 of
                       Discarded r \<Rightarrow> [Recv r]
                     | After \<Rightarrow> [TimeAfter (100 * Millisecond)]) @
                    [Sleep (200 * Millisecond), Cancel])
            | Deadline \<Rightarrow> [CtxDone, Print ErroTimeout, Cancel])))"

text \<open>\<^verbatim>\<open>main\<close> of \<^verbatim>\<open>src/unnamed/part_000\<close>.\<close>

definition main0 :: "string list \<Rightarrow> Response0 select1 \<Rightarrow> Response0 op list" where
  "main0 args sel1 =
    (if length args < 2 then [Print Usage]
     else
       (let cep = args ! 1
        in [Print (Buscando cep), WithTimeout (1 * Second), MakeChan 2,
            Go (FetchBrasilAPI cep), Go (FetchViaCEP cep)] @
           (case sel1 of
              Received result \<Rightarrow> Recv result #
               (case Error result of
                  Some err \<Rightarrow> [Print (ErroNaAPI (APIName result) err), Cancel]
                | None \<Rightarrow>
                    Print (RespostaMaisRapida0 (APIName result)) #
                    (case Data result of
                       BrasilData data \<Rightarrow>
                         [Print (Endereco (BrasilAPICEP.Cep data) (State data) (City data)
                                   (Neighborhood data) (Street data))]
                     | ViaData data \<Rightarrow>
                         [Print (Endereco (ViaCEP.Cep data) (Uf data) (Localidade data)
                                   (Bairro data) (Logradouro data))]
                     | NilData \<Rightarrow> []) @
                    [Cancel])
            | Deadline \<Rightarrow> [CtxDone, Print ErroTimeout, Cancel])))"

section \<open>Shared state\<close>

text \<open>
  What the goroutines share: the buffered channel \<^verbatim>\<open>resultChan\<close> (a FIFO queue and its
  capacity), the map \<^verbatim>\<open>timingResults\<close> (an association list with one entry per key),
  the mutex \<^verbatim>\<open>timingMutex\<close> (locked or not), the counter of the wait group \<^verbatim>\<open>wg\<close>,
  whether the context is done, and the standard output.
\<close>

record 'r shared =
  resultChan :: "'r list"
  capacity :: nat
  timingResults :: "(string \<times> duration) list"
  timingMutex :: bool
  wg :: nat
  ctxDone :: bool
  stdout :: "out list"

definition initial :: "'r shared" where
  "initial = \<lparr>resultChan = [], capacity = 0, timingResults = [], timingMutex = False, wg = 0,
     ctxDone = False, stdout = []\<rparr>"

text \<open>
  One operation on the shared state, as the Go runtime defines it: the goroutine is
  suspended (\<open>Blocks\<close>: a send on a full channel, a receive on an empty one, \<^verbatim>\<open>Lock\<close> on
  a locked mutex, \<^verbatim>\<open>Wait\<close> on a positive counter, a context that is not done), the
  program dies (\<open>Fatal\<close>: \<^verbatim>\<open>Unlock\<close> of an unlocked mutex, a negative wait group
  counter), or the operation completes. \<open>Recv r\<close> is the receive that yields \<open>r\<close>, so
  it can only take place when \<open>r\<close> is the oldest value in the channel. Operations that
  touch nothing shared (network calls, timers) complete with the state unchanged; how
  long they take is not modelled.
\<close>

datatype 'a outcome = Blocks | Fatal | Next 'a

fun exec :: "'r op \<Rightarrow> 'r shared \<Rightarrow> 'r shared outcome" where
  "exec (Send r) s =
     (if length (resultChan s) < capacity s then Next (s\<lparr>resultChan := resultChan s @ [r]\<rparr>)
      else Blocks)"
| "exec (Recv r) s =
     (case resultChan s of
        [] \<Rightarrow> Blocks
      | x # q \<Rightarrow> if x = r then Next (s\<lparr>resultChan := q\<rparr>) else Blocks)"
| "exec CtxDone s = (if ctxDone s then Next s else Blocks)"
| "exec Cancel s = Next (s\<lparr>ctxDone := True\<rparr>)"
| "exec (MakeChan n) s = Next (s\<lparr>resultChan := [], capacity := n\<rparr>)"
| "exec (WgAdd n) s = Next (s\<lparr>wg := wg s + n\<rparr>)"
| "exec WgDone s = (if wg s = 0 then Fatal else Next (s\<lparr>wg := wg s - 1\<rparr>))"
| "exec WgWait s = (if wg s = 0 then Next s else Blocks)"
| "exec MakeMap s = Next (s\<lparr>timingResults := []\<rparr>)"
| "exec Lock s = (if timingMutex s then Blocks else Next (s\<lparr>timingMutex := True\<rparr>))"
| "exec Unlock s = (if timingMutex s then Next (s\<lparr>timingMutex := False\<rparr>) else Fatal)"
| "exec (MapAssign k v) s = Next (s\<lparr>timingResults := AList.update k v (timingResults s)\<rparr>)"
| "exec (Print x) s = Next (s\<lparr>stdout := stdout s @ [x]\<rparr>)"
| "exec _ s = Next s"

text \<open>One goroutine running alone: its operations in order, until one blocks or dies.\<close>

fun exec_all :: "'r op list \<Rightarrow> 'r shared \<Rightarrow> 'r shared outcome" where
  "exec_all [] s = Next s"
| "exec_all (x # ops) s =
     (case exec x s of Blocks \<Rightarrow> Blocks | Fatal \<Rightarrow> Fatal | Next s' \<Rightarrow> exec_all ops s')"

text \<open>The cases of the first \<^verbatim>\<open>select\<close> of \<^verbatim>\<open>main\<close> that are ready in a state. The
  statement blocks while there is none and takes any one of them when there are two.\<close>

definition select1_ready :: "'r shared \<Rightarrow> 'r select1 list" where
  "select1_ready s =
     (case resultChan s of [] \<Rightarrow> [] | r # q \<Rightarrow> [Received r]) @
     (if ctxDone s then [Deadline] else [])"

text \<open>The operations that can suspend the goroutine that performs them.\<close>

fun blocking :: "'r op \<Rightarrow> bool" where
  "blocking (Recv r) = True"
| "blocking CtxDone = True"
| "blocking (TimeAfter d) = True"
| "blocking (Sleep d) = True"
| "blocking (ClientDo req) = True"
| "blocking ReadAll = True"
| "blocking Lock = True"
| "blocking (Send r) = True"
| "blocking WgWait = True"
| "blocking _ = False"

text \<open>The operations of a goroutine that go to the network.\<close>

fun network :: "'r op \<Rightarrow> bool" where
  "network (ClientDo req) = True"
| "network ReadAll = True"
| "network BodyClose = True"
| "network _ = False"

text \<open>What a list of operations prints, the channels it makes and the goroutines it
  starts, in order.\<close>

fun printed :: "'r op list \<Rightarrow> out list" where
  "printed [] = []"
| "printed (Print x # ops) = x # printed ops"
| "printed (_ # ops) = printed ops"

fun chans :: "'r op list \<Rightarrow> nat list" where
  "chans [] = []"
| "chans (MakeChan n # ops) = n # chans ops"
| "chans (_ # ops) = chans ops"

fun spawned :: "'r op list \<Rightarrow> goroutine list" where
  "spawned [] = []"
| "spawned (Go g # ops) = g # spawned ops"
| "spawned (_ # ops) = spawned ops"

fun requests :: "'r op list \<Rightarrow> request list" where
  "requests [] = []"
| "requests (ClientDo req # ops) = req # requests ops"
| "requests (_ # ops) = requests ops"

text \<open>The operations of a goroutine from its first send on.\<close>

fun from_send :: "'r op list \<Rightarrow> 'r op list" where
  "from_send [] = []"
| "from_send (Send r # ops) = Send r # ops"
| "from_send (_ # ops) = from_send ops"

text \<open>
  \<open>holds ops\<close>: the goroutine whose remaining operations are \<open>ops\<close> holds the mutex,
  that is, the next mutex operation it performs is \<^verbatim>\<open>Unlock\<close>.
  \<open>guarded ops\<close>: in \<open>ops\<close>, \<^verbatim>\<open>Lock\<close> and \<^verbatim>\<open>Unlock\<close> alternate, every assignment to
  the map is made holding the mutex, and no network operation is.
\<close>

fun holds :: "'r op list \<Rightarrow> bool" where
  "holds [] = False"
| "holds (Lock # ops) = False"
| "holds (Unlock # ops) = True"
| "holds (_ # ops) = holds ops"

fun guarded :: "'r op list \<Rightarrow> bool" where
  "guarded [] = True"
| "guarded (Lock # ops) = (holds ops \<and> guarded ops)"
| "guarded (Unlock # ops) = (\<not> holds ops \<and> guarded ops)"
| "guarded (MapAssign k v # ops) = (holds ops \<and> guarded ops)"
| "guarded (x # ops) = ((network x \<longrightarrow> \<not> holds ops) \<and> guarded ops)"

section \<open>The two Lookup Tasks running concurrently\<close>

text \<open>
  The two Lookup Tasks with what is left of each to execute, and the shared state.
  A schedule is a list of actors: at each turn the actor takes its next step if it has
  one that is not blocked, and nothing happens otherwise. The \<open>Reader\<close> stands for
  whoever receives from the channel (\<^verbatim>\<open>main\<close>); a schedule without it is one where
  nobody reads.
\<close>

record 'r system =
  taskA :: "'r op list"
  taskB :: "'r op list"
  shr :: "'r shared"
  fatal :: bool

datatype actor = TaskA | TaskB | Reader

fun step :: "actor \<Rightarrow> 'r system \<Rightarrow> 'r system" where
  "step TaskA c =
     (case taskA c of
        [] \<Rightarrow> c
      | x # ops \<Rightarrow>
          (case exec x (shr c) of
             Blocks \<Rightarrow> c
           | Fatal \<Rightarrow> c\<lparr>fatal := True\<rparr>
           | Next s \<Rightarrow> c\<lparr>taskA := ops, shr := s\<rparr>))"
| "step TaskB c =
     (case taskB c of
        [] \<Rightarrow> c
      | x # ops \<Rightarrow>
          (case exec x (shr c) of
             Blocks \<Rightarrow> c
           | Fatal \<Rightarrow> c\<lparr>fatal := True\<rparr>
           | Next s \<Rightarrow> c\<lparr>taskB := ops, shr := s\<rparr>))"
| "step Reader c =
     (case resultChan (shr c) of
        [] \<Rightarrow> c
      | r # q \<Rightarrow> c\<lparr>shr := (shr c)\<lparr>resultChan := q\<rparr>\<rparr>)"

fun run :: "actor list \<Rightarrow> 'r system \<Rightarrow> 'r system" where
  "run [] c = c"
| "run (a # sched) c = run sched (step a c)"

text \<open>The operations of \<^verbatim>\<open>main\<close> before its first \<^verbatim>\<open>select\<close>.\<close>

fun before_select :: "'r op list \<Rightarrow> 'r op list" where
  "before_select [] = []"
| "before_select (Recv r # ops) = []"
| "before_select (CtxDone # ops) = []"
| "before_select (x # ops) = x # before_select ops"

text \<open>The system once \<^verbatim>\<open>main\<close> has reached its first \<^verbatim>\<open>select\<close>: the shared state is
  the one \<^verbatim>\<open>main\<close> has set up, and the two goroutines it has started are at their
  beginning, each with its own outside world.\<close>

definition launched :: "world \<Rightarrow> world \<Rightarrow> string list \<Rightarrow> Response system" where
  "launched wA wB args =
     \<lparr>taskA = fetchBrasilAPI wA (args ! 1), taskB = fetchViaCEP wB (args ! 1),
      shr = (case exec_all (before_select (main args Deadline After)) initial of
               Next s \<Rightarrow> s | _ \<Rightarrow> initial),
      fatal = False\<rparr>"

definition launched0 :: "world \<Rightarrow> world \<Rightarrow> string list \<Rightarrow> Response0 system" where
  "launched0 wA wB args =
     \<lparr>taskA = fetchBrasilAPI0 wA (args ! 1), taskB = fetchViaCEP0 wB (args ! 1),
      shr = (case exec_all (before_select (main0 args Deadline)) initial of
               Next s \<Rightarrow> s | _ \<Rightarrow> initial),
      fatal = False\<rparr>"

text \<open>A Lookup Task is stuck on its send: its next operation is a send that blocks.\<close>

fun send_blocked :: "'r op list \<Rightarrow> 'r shared \<Rightarrow> bool" where
  "send_blocked (Send r # ops) s = (exec (Send r) s = Blocks)"
| "send_blocked _ s = False"

text \<open>Both Lookup Tasks are about to assign to the map: a data race.\<close>

fun writing :: "'r op list \<Rightarrow> bool" where
  "writing (MapAssign k v # ops) = True"
| "writing _ = False"

definition race :: "'r system \<Rightarrow> bool" where
  "race c = (writing (taskA c) \<and> writing (taskB c))"

text \<open>The operations of \<^verbatim>\<open>main\<close> after its first \<^verbatim>\<open>select\<close> has taken a case, and
  the deadlines \<^verbatim>\<open>main\<close> gives to \<^verbatim>\<open>context.WithTimeout\<close>.\<close>

fun after_select :: "'r op list \<Rightarrow> 'r op list" where
  "after_select [] = []"
| "after_select (Recv r # ops) = ops"
| "after_select (CtxDone # ops) = ops"
| "after_select (x # ops) = after_select ops"

fun timeouts :: "'r op list \<Rightarrow> duration list" where
  "timeouts [] = []"
| "timeouts (WithTimeout d # ops) = d # timeouts ops"
| "timeouts (_ # ops) = timeouts ops"

text \<open>A Lookup Task reports a failure: it sends one Response, which names the backend
  and carries the error, it makes at most one request, and after the send it only runs
  its deferred calls.\<close>

definition reports_failure :: "string \<Rightarrow> go_error \<Rightarrow> 'a Response0_scheme op list \<Rightarrow> bool" where
  "reports_failure name err ops =
     (map APIName (sent ops) = [name] \<and> map Error (sent ops) = [Some err] \<and>
      length (requests ops) \<le> 1 \<and>
      filter (\<lambda>x. x \<noteq> BodyClose \<and> x \<noteq> WgDone) (tl (from_send ops)) = [])"

section \<open>Invariants of the concurrent system\<close>

text \<open>The number of \<^verbatim>\<open>wg.Done()\<close> calls a goroutine has left, and the operations a
  Lookup Task performs.\<close>

fun dones :: "'r op list \<Rightarrow> nat" where
  "dones [] = 0"
| "dones (WgDone # ops) = Suc (dones ops)"
| "dones (_ # ops) = dones ops"

fun task_op :: "'r op \<Rightarrow> bool" where
  "task_op (NewRequest url) = True"
| "task_op (ClientDo req) = True"
| "task_op ReadAll = True"
| "task_op BodyClose = True"
| "task_op Unmarshal = True"
| "task_op Lock = True"
| "task_op (MapAssign k v) = True"
| "task_op Unlock = True"
| "task_op (Send r) = True"
| "task_op WgDone = True"
| "task_op _ = False"

definition inv_ops :: "'r system \<Rightarrow> bool" where
  "inv_ops c = (list_all task_op (taskA c) \<and> list_all task_op (taskB c))"

text \<open>The channel has room for every send that is still to come.\<close>

definition inv_chan :: "'r system \<Rightarrow> bool" where
  "inv_chan c =
     (length (sent (taskA c)) + length (sent (taskB c)) + length (resultChan (shr c))
        \<le> capacity (shr c))"

text \<open>The mutex is locked exactly when one task holds it, and never both do.\<close>

definition inv_mutex :: "'r system \<Rightarrow> bool" where
  "inv_mutex c =
     (guarded (taskA c) \<and> guarded (taskB c) \<and> \<not> (holds (taskA c) \<and> holds (taskB c)) \<and>
      timingMutex (shr c) = (holds (taskA c) \<or> holds (taskB c)))"

text \<open>The wait group counter covers the \<^verbatim>\<open>Done\<close> calls still to come.\<close>

definition inv_wg :: "'r system \<Rightarrow> bool" where
  "inv_wg c = (dones (taskA c) + dones (taskB c) \<le> wg (shr c))"

text \<open>The map, completed with the assignments still to come, is the map \<open>M\<close>; the two
  tasks assign to different keys, each at most once.\<close>

definition inv_map :: "(string \<rightharpoonup> duration) \<Rightarrow> 'r system \<Rightarrow> bool" where
  "inv_map M c =
     (length (assigned (taskA c)) \<le> 1 \<and> length (assigned (taskB c)) \<le> 1 \<and>
      fst ` set (assigned (taskA c)) \<inter> fst ` set (assigned (taskB c)) = {} \<and>
      distinct (map fst (timingResults (shr c))) \<and>
      map_of (timingResults (shr c)) ++ map_of (assigned (taskA c)) ++
        map_of (assigned (taskB c)) = M)"

definition inv :: "(string \<rightharpoonup> duration) \<Rightarrow> 'r system \<Rightarrow> bool" where
  "inv M c = (inv_ops c \<and> inv_chan c \<and> inv_mutex c \<and> inv_wg c \<and> inv_map M c \<and> \<not> fatal c)"

section \<open>Sample inputs\<close>

text \<open>Outside worlds for the concrete instances below: one where every call succeeds,
  and one per kind of failure.\<close>

definition sample_BrasilAPICEP :: BrasilAPICEP where
  "sample_BrasilAPICEP = \<lparr>BrasilAPICEP.Cep = ''01153-000'', State = ''SP'', City = ''Sao Paulo'',
     Neighborhood = ''Barra Funda'', Street = ''Rua Vitorino Carmilo'', Service = ''open-cep''\<rparr>"

definition sample_ViaCEP :: ViaCEP where
  "sample_ViaCEP = \<lparr>Cep = ''01153-000'', Logradouro = ''Rua Vitorino Carmilo'',
     Complemento = [], Bairro = ''Barra Funda'', Localidade = ''Sao Paulo'', Uf = ''SP'',
     Ibge = ''3550308'', Gia = ''1004'', Ddd = ''11'', Siafi = ''7107''\<rparr>"

definition world_ok :: "duration \<Rightarrow> world" where
  "world_ok d = \<lparr>newRequestWithContext = Inr,
     clientDo = (\<lambda>req. Inr \<lparr>StatusCode = 200, Body = Inr ''{...}''\<rparr>),
     unmarshalBrasilAPICEP = (\<lambda>body. Inr sample_BrasilAPICEP),
     unmarshalViaCEP = (\<lambda>body. Inr sample_ViaCEP),
     timeSince = d\<rparr>"

definition world_build_error :: world where
  "world_build_error =
     (world_ok 1)\<lparr>newRequestWithContext := (\<lambda>url. Inl (LibraryError ''invalid URL escape''))\<rparr>"

definition world_transport_error :: world where
  "world_transport_error =
     (world_ok 1000000000)\<lparr>clientDo := (\<lambda>req. Inl (LibraryError ''context deadline exceeded''))\<rparr>"

definition world_status_404 :: world where
  "world_status_404 =
     (world_ok 250000000)\<lparr>clientDo := (\<lambda>req. Inr \<lparr>StatusCode = 404, Body = Inr []\<rparr>)\<rparr>"

definition world_read_error :: world where
  "world_read_error =
     (world_ok 250000000)\<lparr>clientDo :=
        (\<lambda>req. Inr \<lparr>StatusCode = 200, Body = Inl (LibraryError ''unexpected EOF'')\<rparr>)\<rparr>"

definition world_decode_error :: world where
  "world_decode_error =
     (world_ok 250000000)\<lparr>
        unmarshalBrasilAPICEP := (\<lambda>body. Inl (LibraryError ''invalid character'')),
        unmarshalViaCEP := (\<lambda>body. Inl (LibraryError ''invalid character''))\<rparr>"

definition sample_args :: "string list" where
  "sample_args = [''cep'', ''01153000'']"

definition sample_success :: Response where
  "sample_success = \<lparr>Data = BrasilData sample_BrasilAPICEP, APIName = ''BrasilAPI'',
     Error = None, Duration = 250000000\<rparr>"

definition sample_failure :: Response where
  "sample_failure = \<lparr>Data = NilData, APIName = ''ViaCEP'',
     Error = Some (StatusCodeError 404), Duration = 120000000\<rparr>"

definition sample_success0 :: Response0 where
  "sample_success0 = \<lparr>Data = ViaData sample_ViaCEP, APIName = ''ViaCEP'', Error = None\<rparr>"

definition sample_failure0 :: Response0 where
  "sample_failure0 = \<lparr>Data = NilData, APIName = ''BrasilAPI'',
     Error = Some (LibraryError ''context deadline exceeded'')\<rparr>"

text \<open>The value a decoded struct holds for a JSON member name, by the struct tags.\<close>

definition BrasilAPICEP_member :: "BrasilAPICEP \<Rightarrow> string \<Rightarrow> string option" where
  "BrasilAPICEP_member data name = map_option (\<lambda>field. field data) (BrasilAPICEP_tag name)"

definition ViaCEP_member :: "ViaCEP \<Rightarrow> string \<Rightarrow> string option" where
  "ViaCEP_member data name = map_option (\<lambda>field. field data) (ViaCEP_tag name)"

text \<open>The next operation of a goroutine goes to the network.\<close>

fun at_network :: "'r op list \<Rightarrow> bool" where
  "at_network (x # ops) = network x"
| "at_network [] = False"

text \<open>A schedule that interleaves the two Lookup Tasks and in which nobody reads.\<close>

definition sample_schedule :: "actor list" where
  "sample_schedule =
     [TaskA, TaskB, TaskB, TaskA, TaskB, TaskA, TaskA, TaskB, TaskA, TaskB, TaskA, TaskA,
      TaskA, TaskA, TaskA, TaskA, TaskB, TaskB]"

text \<open>With nobody reading, the values in the channel and the values still to be sent
  are together the values \<open>R\<close>.\<close>

definition inv_sent :: "'r multiset \<Rightarrow> 'r system \<Rightarrow> bool" where
  "inv_sent R c =
     (mset (resultChan (shr c)) + mset (sent (taskA c)) + mset (sent (taskB c)) = R)"

text \<open>\<open>ends_done ops\<close>: the last operation of \<open>ops\<close>, if any, is \<^verbatim>\<open>wg.Done()\<close>. The
  counter of the wait group is the number of \<^verbatim>\<open>Done\<close> calls still to come, and each
  task ends with its own.\<close>

fun ends_done :: "'r op list \<Rightarrow> bool" where
  "ends_done [] = True"
| "ends_done [x] = (x = WgDone)"
| "ends_done (x # ops) = ends_done ops"

definition inv_quiet :: "'r system \<Rightarrow> bool" where
  "inv_quiet c =
     (dones (taskA c) + dones (taskB c) = wg (shr c) \<and>
      ends_done (taskA c) \<and> ends_done (taskB c))"

section \<open>Preservation of the invariants\<close>

lemma step_cases [consumes 1, case_names Same FatalA FatalB StepA StepB Read]:
  assumes "inv_ops c"
  obtains "step a c = c"
  | x ops where "taskA c = x # ops" "task_op x" "exec x (shr c) = Fatal"
      "step a c = c\<lparr>fatal := True\<rparr>"
  | x ops where "taskB c = x # ops" "task_op x" "exec x (shr c) = Fatal"
      "step a c = c\<lparr>fatal := True\<rparr>"
  | x ops s' where "taskA c = x # ops" "task_op x" "exec x (shr c) = Next s'"
      "step a c = c\<lparr>taskA := ops, shr := s'\<rparr>"
  | x ops s' where "taskB c = x # ops" "task_op x" "exec x (shr c) = Next s'"
      "step a c = c\<lparr>taskB := ops, shr := s'\<rparr>"
  | r q where "a = Reader" "resultChan (shr c) = r # q"
      "step a c = c\<lparr>shr := (shr c)\<lparr>resultChan := q\<rparr>\<rparr>"
proof (cases a)
  case TaskA
  show ?thesis
  proof (cases "taskA c")
    case Nil
    with TaskA that(1) show ?thesis by simp
  next
    case (Cons x ops)
    with assms have "task_op x" by (simp add: inv_ops_def)
    with TaskA Cons that(1,2,4) show ?thesis
      by (cases "exec x (shr c)") simp_all
  qed
next
  case TaskB
  show ?thesis
  proof (cases "taskB c")
    case Nil
    with TaskB that(1) show ?thesis by simp
  next
    case (Cons x ops)
    with assms have "task_op x" by (simp add: inv_ops_def)
    with TaskB Cons that(1,3,5) show ?thesis
      by (cases "exec x (shr c)") simp_all
  qed
next
  case Reader
  with that(1,6) show ?thesis
    by (cases "resultChan (shr c)") simp_all
qed

lemma task_op_cases [consumes 1, case_names NewRequest ClientDo ReadAll BodyClose Unmarshal
    Lock MapAssign Unlock Send WgDone]:
  assumes "task_op x"
  obtains url where "x = NewRequest url" | req where "x = ClientDo req" | "x = ReadAll"
  | "x = BodyClose" | "x = Unmarshal" | "x = Lock" | k v where "x = MapAssign k v"
  | "x = Unlock" | r where "x = Send r" | "x = WgDone"
  using assms by (cases x) auto

lemma inv_ops_step: "inv_ops c \<Longrightarrow> inv_ops (step a c)"
  by (cases rule: step_cases[where a = a and c = c]) (auto simp: inv_ops_def)

lemma chan_exec:
  assumes "task_op x" "exec x s = Next s'"
  shows "length (sent (x # ops)) + length (resultChan s) = length (sent ops) + length (resultChan s')"
    and "capacity s' = capacity s"
  using assms by (cases x rule: task_op_cases; auto split: if_splits)+

lemma inv_chan_step:
  assumes "inv_ops c" "inv_chan c"
  shows "inv_chan (step a c)"
  using assms(1)
proof (cases rule: step_cases[where a = a])
  case (StepA x ops s')
  with chan_exec(1)[OF StepA(2,3), of ops] chan_exec(2)[OF StepA(2,3)] assms(2) show ?thesis by (simp add: inv_chan_def)
next
  case (StepB x ops s')
  with chan_exec(1)[OF StepB(2,3), of ops] chan_exec(2)[OF StepB(2,3)] assms(2) show ?thesis by (simp add: inv_chan_def)
qed (use assms(2) in \<open>simp_all add: inv_chan_def\<close>)

lemma mutex_exec:
  assumes "task_op x" "exec x s = Next s'" "guarded (x # ops)"
    and "timingMutex s = (holds (x # ops) \<or> h)" "\<not> (holds (x # ops) \<and> h)"
  shows "guarded ops \<and> timingMutex s' = (holds ops \<or> h) \<and> \<not> (holds ops \<and> h)"
  using assms by (cases x rule: task_op_cases) (auto split: if_splits)

lemma inv_mutex_step:
  assumes "inv_ops c" "inv_mutex c"
  shows "inv_mutex (step a c)"
  using assms(1)
proof (cases rule: step_cases[where a = a])
  case (StepA x ops s')
  with mutex_exec[OF StepA(2,3), of ops "holds (taskB c)"] assms(2) show ?thesis
    by (simp add: inv_mutex_def)
next
  case (StepB x ops s')
  with mutex_exec[OF StepB(2,3), of ops "holds (taskA c)"] assms(2) show ?thesis
    by (auto simp add: inv_mutex_def)
qed (use assms(2) in \<open>simp_all add: inv_mutex_def\<close>)

lemma wg_exec:
  assumes "task_op x" "exec x s = Next s'" "dones (x # ops) + n \<le> wg s"
  shows "dones ops + n \<le> wg s'"
  using assms by (cases x rule: task_op_cases) (auto split: if_splits)

lemma inv_wg_step:
  assumes "inv_ops c" "inv_wg c"
  shows "inv_wg (step a c)"
  using assms(1)
proof (cases rule: step_cases[where a = a])
  case (StepA x ops s')
  with wg_exec[OF StepA(2,3), of ops "dones (taskB c)"] assms(2) show ?thesis
    by (simp add: inv_wg_def)
next
  case (StepB x ops s')
  with wg_exec[OF StepB(2,3), of ops "dones (taskA c)"] assms(2) show ?thesis
    by (simp add: inv_wg_def add.commute)
qed (use assms(2) in \<open>simp_all add: inv_wg_def\<close>)

lemma no_fatal_exec:
  assumes "task_op x" "guarded (x # ops)" "timingMutex s = (holds (x # ops) \<or> h)" "dones (x # ops) + n \<le> wg s"
  shows "exec x s \<noteq> Fatal"
  using assms by (cases x rule: task_op_cases) (auto split: if_splits)

lemma no_fatal_step:
  assumes "inv_ops c" "inv_mutex c" "inv_wg c" "\<not> fatal c"
  shows "\<not> fatal (step a c)"
  using assms(1)
proof (cases rule: step_cases[where a = a])
  case (FatalA x ops)
  with no_fatal_exec[OF FatalA(2), of ops "shr c" "holds (taskB c)" "dones (taskB c)"] assms(2,3) show ?thesis
    by (simp add: inv_mutex_def inv_wg_def)
next
  case (FatalB x ops)
  with no_fatal_exec[OF FatalB(2), of ops "shr c" "holds (taskA c)" "dones (taskA c)"] assms(2,3) show ?thesis
    by (auto simp add: inv_mutex_def inv_wg_def add.commute)
qed (use assms(4) in simp_all)

lemma map_exec:
  assumes "task_op x" "exec x s = Next s'" "length (assigned (x # ops)) \<le> 1"
    and "fst ` set (assigned (x # ops)) \<inter> dom other = {}"
    and "distinct (map fst (timingResults s))"
  shows "length (assigned ops) \<le> 1"
    and "fst ` set (assigned ops) \<inter> dom other = {}"
    and "distinct (map fst (timingResults s'))"
    and "map_of (timingResults s') ++ other ++ map_of (assigned ops) =
         map_of (timingResults s) ++ other ++ map_of (assigned (x # ops))"
  using assms
  by (cases x rule: task_op_cases;
      auto split: if_splits simp: update_conv' distinct_update map_add_upd_left)+

lemma inv_map_step:
  assumes "inv_ops c" "inv_map M c"
  shows "inv_map M (step a c)"
  using assms(1)
proof (cases rule: step_cases[where a = a])
  case (StepA x ops s')
  let ?B = "map_of (assigned (taskB c))"
  from assms(2) StepA(1) have a: "length (assigned (x # ops)) \<le> 1"
    "fst ` set (assigned (x # ops)) \<inter> dom ?B = {}" "distinct (map fst (timingResults (shr c)))"
    and len: "length (assigned (taskB c)) \<le> 1"
    and M: "map_of (timingResults (shr c)) ++ map_of (assigned (x # ops)) ++ ?B = M"
    by (simp_all add: inv_map_def dom_map_of_conv_image_fst)
  note e = map_exec[OF StepA(2,3) a]
  have d1: "dom (map_of (assigned ops)) \<inter> dom ?B = {}"
    using e(2) by (simp add: dom_map_of_conv_image_fst)
  have d2: "dom (map_of (assigned (x # ops))) \<inter> dom ?B = {}"
    using a(2) by (simp add: dom_map_of_conv_image_fst)
  have "map_of (timingResults s') ++ map_of (assigned ops) ++ ?B =
        map_of (timingResults s') ++ (?B ++ map_of (assigned ops))"
    using map_add_comm[OF d1] by (metis map_add_assoc)
  also have "\<dots> = map_of (timingResults (shr c)) ++ (?B ++ map_of (assigned (x # ops)))"
    using e(4) by (metis map_add_assoc)
  also have "\<dots> = M"
    using map_add_comm[OF d2] M by (metis map_add_assoc)
  finally show ?thesis
    using e(1,2,3) len StepA(4) by (simp add: inv_map_def dom_map_of_conv_image_fst)
next
  case (StepB x ops s')
  let ?A = "map_of (assigned (taskA c))"
  from assms(2) StepB(1) have a: "length (assigned (x # ops)) \<le> 1"
    "fst ` set (assigned (x # ops)) \<inter> dom ?A = {}" "distinct (map fst (timingResults (shr c)))"
    and len: "length (assigned (taskA c)) \<le> 1"
    and M: "map_of (timingResults (shr c)) ++ ?A ++ map_of (assigned (x # ops)) = M"
    by (simp_all add: inv_map_def dom_map_of_conv_image_fst Int_commute)
  note e = map_exec[OF StepB(2,3) a]
  show ?thesis
    using e len M StepB(4) by (simp add: inv_map_def dom_map_of_conv_image_fst Int_commute)
qed (use assms(2) in \<open>simp_all add: inv_map_def\<close>)

lemma inv_step: "inv M c \<Longrightarrow> inv M (step a c)"
  unfolding inv_def
  using inv_ops_step inv_chan_step inv_mutex_step inv_wg_step inv_map_step no_fatal_step
  by blast

lemma inv_run: "inv M c \<Longrightarrow> inv M (run sched c)"
  by (induction sched arbitrary: c) (simp_all add: inv_step)

section \<open>The system that \<^verbatim>\<open>main\<close> launches\<close>

lemma before_select_main:
  "before_select (main args sel1 sel2) = before_select (main args Deadline After)"
  "before_select (main0 args sel0) = before_select (main0 args Deadline)"
  by (simp_all add: main_def main0_def Let_def
      split: select1.split select2.split option.split payload.split)

lemma launched_shr:
  "2 \<le> length args \<Longrightarrow> shr (launched wA wB args) =
     \<lparr>resultChan = [], capacity = 2, timingResults = [], timingMutex = False, wg = 2,
      ctxDone = False, stdout = [Buscando (args ! 1)]\<rparr>"
  by (simp add: launched_def main_def initial_def Let_def)

lemma launched0_shr:
  "2 \<le> length args \<Longrightarrow> shr (launched0 wA wB args) =
     \<lparr>resultChan = [], capacity = 2, timingResults = [], timingMutex = False, wg = 0,
      ctxDone = False, stdout = [Buscando (args ! 1)]\<rparr>"
  by (simp add: launched0_def main0_def initial_def Let_def)

lemma fetchBrasilAPI_facts:
  "list_all task_op (fetchBrasilAPI w cep)" "length (sent (fetchBrasilAPI w cep)) = 1"
  "guarded (fetchBrasilAPI w cep)" "\<not> holds (fetchBrasilAPI w cep)"
  "dones (fetchBrasilAPI w cep) = 1"
  "assigned (fetchBrasilAPI w cep) =
     map (\<lambda>r. (APIName r, Duration r)) (filter (\<lambda>r. Error r = None) (sent (fetchBrasilAPI w cep)))"
  "map APIName (sent (fetchBrasilAPI w cep)) = [''BrasilAPI'']"
  "assigned (from_send (fetchBrasilAPI w cep)) = []"
  "length (assigned (fetchBrasilAPI w cep)) \<le> 1"
  "fst ` set (assigned (fetchBrasilAPI w cep)) \<subseteq> {''BrasilAPI''}"
  by (simp_all add: fetchBrasilAPI_def Let_def split: sum.split)

lemma fetchViaCEP_facts:
  "list_all task_op (fetchViaCEP w cep)" "length (sent (fetchViaCEP w cep)) = 1"
  "guarded (fetchViaCEP w cep)" "\<not> holds (fetchViaCEP w cep)"
  "dones (fetchViaCEP w cep) = 1"
  "assigned (fetchViaCEP w cep) =
     map (\<lambda>r. (APIName r, Duration r)) (filter (\<lambda>r. Error r = None) (sent (fetchViaCEP w cep)))"
  "map APIName (sent (fetchViaCEP w cep)) = [''ViaCEP'']"
  "assigned (from_send (fetchViaCEP w cep)) = []"
  "length (assigned (fetchViaCEP w cep)) \<le> 1"
  "fst ` set (assigned (fetchViaCEP w cep)) \<subseteq> {''ViaCEP''}"
  by (simp_all add: fetchViaCEP_def Let_def split: sum.split)

lemma fetchBrasilAPI0_facts:
  "list_all task_op (fetchBrasilAPI0 w cep)" "length (sent (fetchBrasilAPI0 w cep)) = 1"
  "guarded (fetchBrasilAPI0 w cep)" "\<not> holds (fetchBrasilAPI0 w cep)"
  "dones (fetchBrasilAPI0 w cep) = 0"
  "assigned (fetchBrasilAPI0 w cep) = []"
  by (simp_all add: fetchBrasilAPI0_def Let_def split: sum.split)

lemma fetchViaCEP0_facts:
  "list_all task_op (fetchViaCEP0 w cep)" "length (sent (fetchViaCEP0 w cep)) = 1"
  "guarded (fetchViaCEP0 w cep)" "\<not> holds (fetchViaCEP0 w cep)"
  "dones (fetchViaCEP0 w cep) = 0"
  "assigned (fetchViaCEP0 w cep) = []"
  by (simp_all add: fetchViaCEP0_def Let_def split: sum.split)

lemma inv_launched:
  assumes "2 \<le> length args"
  shows "inv (map_of (assigned (fetchBrasilAPI wA (args ! 1))) ++
              map_of (assigned (fetchViaCEP wB (args ! 1)))) (launched wA wB args)"
proof -
  let ?c = "launched wA wB args"
  have t: "taskA ?c = fetchBrasilAPI wA (args ! 1)" "taskB ?c = fetchViaCEP wB (args ! 1)"
    "\<not> fatal ?c"
    by (simp_all add: launched_def)
  have "fst ` set (assigned (fetchBrasilAPI wA (args ! 1))) \<inter>
        fst ` set (assigned (fetchViaCEP wB (args ! 1))) = {}"
    using fetchBrasilAPI_facts(10)[of wA "args ! 1"] fetchViaCEP_facts(10)[of wB "args ! 1"]
    by force
  then show ?thesis
    unfolding inv_def inv_ops_def inv_chan_def inv_mutex_def inv_wg_def inv_map_def t(1,2)
      launched_shr[OF assms]
    using t(3) fetchBrasilAPI_facts(9)[of wA "args ! 1"] fetchViaCEP_facts(9)[of wB "args ! 1"]
    by (simp add: fetchBrasilAPI_facts(1-5) fetchViaCEP_facts(1-5))
qed

lemma inv_launched0:
  assumes "2 \<le> length args"
  shows "inv Map.empty (launched0 wA wB args)"
proof -
  let ?c = "launched0 wA wB args"
  have t: "taskA ?c = fetchBrasilAPI0 wA (args ! 1)" "taskB ?c = fetchViaCEP0 wB (args ! 1)"
    "\<not> fatal ?c"
    by (simp_all add: launched0_def)
  show ?thesis
    unfolding inv_def inv_ops_def inv_chan_def inv_mutex_def inv_wg_def inv_map_def t(1,2)
      launched0_shr[OF assms]
    using t(3)
    by (simp add: fetchBrasilAPI0_facts fetchViaCEP0_facts)
qed

lemma not_send_blocked:
  "length (sent ops) + n + length (resultChan s) \<le> capacity s \<Longrightarrow> \<not> send_blocked ops s"
  by (cases "(ops, s)" rule: send_blocked.cases) auto

lemma inv_no_send_blocked:
  assumes "inv M c"
  shows "\<not> send_blocked (taskA c) (shr c)" "\<not> send_blocked (taskB c) (shr c)"
  using assms not_send_blocked[of "taskA c" "length (sent (taskB c))" "shr c"]
    not_send_blocked[of "taskB c" "length (sent (taskA c))" "shr c"]
  by (auto simp: inv_def inv_chan_def)

lemma writing_holds: "guarded ops \<Longrightarrow> writing ops \<Longrightarrow> holds ops"
  by (cases ops rule: writing.cases) simp_all

lemma inv_no_race: "inv M c \<Longrightarrow> \<not> race c"
  using writing_holds by (auto simp: inv_def inv_mutex_def race_def)

section \<open>Progress\<close>

lemma exec_blocks:
  assumes "task_op x" "exec x s = Blocks"
  shows "(x = Lock \<and> timingMutex s) \<or> (\<exists>r. x = Send r \<and> capacity s \<le> length (resultChan s))"
  using assms by (cases x rule: task_op_cases) (auto split: if_splits)

lemma exec_next:
  assumes "inv M c" "taskA c = x # ops \<or> taskB c = x # ops" "x \<noteq> Lock"
  shows "\<exists>s'. exec x (shr c) = Next s'"
proof -
  from assms(1,2) have t: "task_op x" by (auto simp: inv_def inv_ops_def)
  have nf: "exec x (shr c) \<noteq> Fatal"
    using assms(1,2) t no_fatal_exec[of x ops "shr c" "holds (taskB c)" "dones (taskB c)"]
      no_fatal_exec[of x ops "shr c" "holds (taskA c)" "dones (taskA c)"]
    by (auto simp: inv_def inv_mutex_def inv_wg_def add.commute)
  have nb: "exec x (shr c) \<noteq> Blocks"
    using exec_blocks[OF t, of "shr c"] assms by (auto simp: inv_def inv_chan_def)
  from nf nb show ?thesis by (cases "exec x (shr c)") auto
qed

lemma stepA_next: "taskA c = x # ops \<Longrightarrow> exec x (shr c) = Next s' \<Longrightarrow>
    taskA (step TaskA c) = ops \<and> taskB (step TaskA c) = taskB c"
  by simp

lemma stepB_next: "taskB c = x # ops \<Longrightarrow> exec x (shr c) = Next s' \<Longrightarrow>
    taskB (step TaskB c) = ops \<and> taskA (step TaskB c) = taskA c"
  by simp

lemma progress:
  assumes "inv M c" "taskA c \<noteq> [] \<or> taskB c \<noteq> []"
  shows "\<exists>a. a \<noteq> Reader \<and> length (taskA (step a c)) + length (taskB (step a c)) <
             length (taskA c) + length (taskB c)"
proof -
  have A: "\<exists>s'. exec x (shr c) = Next s' \<Longrightarrow> taskA c = x # ops \<Longrightarrow> ?thesis" for x ops
    using stepA_next[of c x ops] by (intro exI[of _ TaskA]) auto
  have B: "\<exists>s'. exec x (shr c) = Next s' \<Longrightarrow> taskB c = x # ops \<Longrightarrow> ?thesis" for x ops
    using stepB_next[of c x ops] by (intro exI[of _ TaskB]) auto
  have lockA: "taskA c = Lock # ops \<Longrightarrow> ?thesis" for ops
  proof (cases "timingMutex (shr c)")
    case False
    assume a: "taskA c = Lock # ops"
    with False A[of Lock ops] show ?thesis by simp
  next
    case True
    assume a: "taskA c = Lock # ops"
    with True assms(1) have h: "holds (taskB c)" by (simp add: inv_def inv_mutex_def)
    then obtain y ops' where b: "taskB c = y # ops'" "y \<noteq> Lock"
      by (cases "taskB c" rule: holds.cases) auto
    with exec_next[OF assms(1), of y ops'] B[of y ops'] show ?thesis by simp
  qed
  have lockB: "taskB c = Lock # ops \<Longrightarrow> ?thesis" for ops
  proof (cases "timingMutex (shr c)")
    case False
    assume a: "taskB c = Lock # ops"
    with False B[of Lock ops] show ?thesis by simp
  next
    case True
    assume a: "taskB c = Lock # ops"
    with True assms(1) have h: "holds (taskA c)" by (simp add: inv_def inv_mutex_def)
    then obtain y ops' where b: "taskA c = y # ops'" "y \<noteq> Lock"
      by (cases "taskA c" rule: holds.cases) auto
    with exec_next[OF assms(1), of y ops'] A[of y ops'] show ?thesis by simp
  qed
  from assms(2) show ?thesis
  proof
    assume "taskA c \<noteq> []"
    then obtain x ops where a: "taskA c = x # ops" by (cases "taskA c") auto
    show ?thesis
    proof (cases "x = Lock")
      case True
      with a lockA show ?thesis by simp
    next
      case False
      with exec_next[OF assms(1), of x ops] a A[of x ops] show ?thesis by simp
    qed
  next
    assume "taskB c \<noteq> []"
    then obtain x ops where b: "taskB c = x # ops" by (cases "taskB c") auto
    show ?thesis
    proof (cases "x = Lock")
      case True
      with b lockB show ?thesis by simp
    next
      case False
      with exec_next[OF assms(1), of x ops] b B[of x ops] show ?thesis by simp
    qed
  qed
qed

lemma can_finish:
  "inv M c \<Longrightarrow>
   \<exists>sched. Reader \<notin> set sched \<and> taskA (run sched c) = [] \<and> taskB (run sched c) = []"
proof (induction "length (taskA c) + length (taskB c)" arbitrary: c rule: less_induct)
  case less
  show ?case
  proof (cases "taskA c = [] \<and> taskB c = []")
    case True
    then have "Reader \<notin> set [] \<and> taskA (run [] c) = [] \<and> taskB (run [] c) = []" by simp
    then show ?thesis by blast
  next
    case False
    with progress[OF less.prems] obtain a where a: "a \<noteq> Reader"
      "length (taskA (step a c)) + length (taskB (step a c)) < length (taskA c) + length (taskB c)"
      by blast
    from less.hyps[OF a(2) inv_step[OF less.prems]] obtain sched where
      "Reader \<notin> set sched" "taskA (run sched (step a c)) = [] \<and> taskB (run sched (step a c)) = []"
      by blast
    with a(1) have "Reader \<notin> set (a # sched) \<and>
        taskA (run (a # sched) c) = [] \<and> taskB (run (a # sched) c) = []"
      by simp
    then show ?thesis by blast
  qed
qed

lemma run_append: "run (xs @ ys) c = run ys (run xs c)"
  by (induction xs arbitrary: c) simp_all

section \<open>Lookup Tasks: failures\<close>

text \<open>
  Claim C5. In each Lookup Task of both variants, each of the five kinds of failure
  (request construction, transport, status other than 200, body read, JSON decode) makes
  the task send one Response whose \<open>Error\<close> is the error and whose \<open>APIName\<close> names the
  backend; for a status other than 200 the error carries the numeric status code. The
  task makes at most one request and, after the send, only runs its deferred calls: there
  is no retry.
\<close>

theorem failures_reported:
  "(newRequestWithContext w (''https://brasilapi.com.br/api/cep/v1/'' @ cep) = Inl e \<longrightarrow>
      reports_failure ''BrasilAPI'' e (fetchBrasilAPI w cep)) \<and>
   (newRequestWithContext w (''https://brasilapi.com.br/api/cep/v1/'' @ cep) = Inr req \<and> clientDo w req = Inl e \<longrightarrow>
      reports_failure ''BrasilAPI'' e (fetchBrasilAPI w cep)) \<and>
   (newRequestWithContext w (''https://brasilapi.com.br/api/cep/v1/'' @ cep) = Inr req \<and> clientDo w req = Inr resp \<and> StatusCode resp \<noteq> StatusOK \<longrightarrow>
      reports_failure ''BrasilAPI'' (StatusCodeError (StatusCode resp)) (fetchBrasilAPI w cep)) \<and>
   (newRequestWithContext w (''https://brasilapi.com.br/api/cep/v1/'' @ cep) = Inr req \<and> clientDo w req = Inr resp \<and> StatusCode resp = StatusOK \<and> Body resp = Inl e \<longrightarrow>
      reports_failure ''BrasilAPI'' e (fetchBrasilAPI w cep)) \<and>
   (newRequestWithContext w (''https://brasilapi.com.br/api/cep/v1/'' @ cep) = Inr req \<and> clientDo w req = Inr resp \<and> StatusCode resp = StatusOK \<and> Body resp = Inr body \<and> unmarshalBrasilAPICEP w body = Inl e \<longrightarrow>
      reports_failure ''BrasilAPI'' e (fetchBrasilAPI w cep)) \<and>
   (newRequestWithContext w (''http://viacep.com.br/ws/'' @ cep @ ''/json/'') = Inl e \<longrightarrow>
      reports_failure ''ViaCEP'' e (fetchViaCEP w cep)) \<and>
   (newRequestWithContext w (''http://viacep.com.br/ws/'' @ cep @ ''/json/'') = Inr req \<and> clientDo w req = Inl e \<longrightarrow>
      reports_failure ''ViaCEP'' e (fetchViaCEP w cep)) \<and>
   (newRequestWithContext w (''http://viacep.com.br/ws/'' @ cep @ ''/json/'') = Inr req \<and> clientDo w req = Inr resp \<and> StatusCode resp \<noteq> StatusOK \<longrightarrow>
      reports_failure ''ViaCEP'' (StatusCodeError (StatusCode resp)) (fetchViaCEP w cep)) \<and>
   (newRequestWithContext w (''http://viacep.com.br/ws/'' @ cep @ ''/json/'') = Inr req \<and> clientDo w req = Inr resp \<and> StatusCode resp = StatusOK \<and> Body resp = Inl e \<longrightarrow>
      reports_failure ''ViaCEP'' e (fetchViaCEP w cep)) \<and>
   (newRequestWithContext w (''http://viacep.com.br/ws/'' @ cep @ ''/json/'') = Inr req \<and> clientDo w req = Inr resp \<and> StatusCode resp = StatusOK \<and> Body resp = Inr body \<and> unmarshalViaCEP w body = Inl e \<longrightarrow>
      reports_failure ''ViaCEP'' e (fetchViaCEP w cep)) \<and>
   (newRequestWithContext w (''https://brasilapi.com.br/api/cep/v1/'' @ cep) = Inl e \<longrightarrow>
      reports_failure ''BrasilAPI'' e (fetchBrasilAPI0 w cep)) \<and>
   (newRequestWithContext w (''https://brasilapi.com.br/api/cep/v1/'' @ cep) = Inr req \<and> clientDo w req = Inl e \<longrightarrow>
      reports_failure ''BrasilAPI'' e (fetchBrasilAPI0 w cep)) \<and>
   (newRequestWithContext w (''https://brasilapi.com.br/api/cep/v1/'' @ cep) = Inr req \<and> clientDo w req = Inr resp \<and> StatusCode resp \<noteq> StatusOK \<longrightarrow>
      reports_failure ''BrasilAPI'' (StatusCodeError (StatusCode resp)) (fetchBrasilAPI0 w cep)) \<and>
   (newRequestWithContext w (''https://brasilapi.com.br/api/cep/v1/'' @ cep) = Inr req \<and> clientDo w req = Inr resp \<and> StatusCode resp = StatusOK \<and> Body resp = Inl e \<longrightarrow>
      reports_failure ''BrasilAPI'' e (fetchBrasilAPI0 w cep)) \<and>
   (newRequestWithContext w (''https://brasilapi.com.br/api/cep/v1/'' @ cep) = Inr req \<and> clientDo w req = Inr resp \<and> StatusCode resp = StatusOK \<and> Body resp = Inr body \<and> unmarshalBrasilAPICEP w body = Inl e \<longrightarrow>
      reports_failure ''BrasilAPI'' e (fetchBrasilAPI0 w cep)) \<and>
   (newRequestWithContext w (''http://viacep.com.br/ws/'' @ cep @ ''/json/'') = Inl e \<longrightarrow>
      reports_failure ''ViaCEP'' e (fetchViaCEP0 w cep)) \<and>
   (newRequestWithContext w (''http://viacep.com.br/ws/'' @ cep @ ''/json/'') = Inr req \<and> clientDo w req = Inl e \<longrightarrow>
      reports_failure ''ViaCEP'' e (fetchViaCEP0 w cep)) \<and>
   (newRequestWithContext w (''http://viacep.com.br/ws/'' @ cep @ ''/json/'') = Inr req \<and> clientDo w req = Inr resp \<and> StatusCode resp \<noteq> StatusOK \<longrightarrow>
      reports_failure ''ViaCEP'' (StatusCodeError (StatusCode resp)) (fetchViaCEP0 w cep)) \<and>
   (newRequestWithContext w (''http://viacep.com.br/ws/'' @ cep @ ''/json/'') = Inr req \<and> clientDo w req = Inr resp \<and> StatusCode resp = StatusOK \<and> Body resp = Inl e \<longrightarrow>
      reports_failure ''ViaCEP'' e (fetchViaCEP0 w cep)) \<and>
   (newRequestWithContext w (''http://viacep.com.br/ws/'' @ cep @ ''/json/'') = Inr req \<and> clientDo w req = Inr resp \<and> StatusCode resp = StatusOK \<and> Body resp = Inr body \<and> unmarshalViaCEP w body = Inl e \<longrightarrow>
      reports_failure ''ViaCEP'' e (fetchViaCEP0 w cep))"
  by (intro conjI impI; (elim conjE)?;
      simp add: fetchBrasilAPI_def fetchViaCEP_def fetchBrasilAPI0_def fetchViaCEP0_def
        reports_failure_def)

theorem failures_reported_witness:
  "reports_failure ''BrasilAPI'' (LibraryError ''invalid URL escape'')
     (fetchBrasilAPI world_build_error ''%zz'') \<and>
   reports_failure ''ViaCEP'' (LibraryError ''context deadline exceeded'')
     (fetchViaCEP world_transport_error ''01153000'') \<and>
   reports_failure ''BrasilAPI'' (StatusCodeError 404)
     (fetchBrasilAPI world_status_404 ''00000000'') \<and>
   reports_failure ''ViaCEP'' (StatusCodeError 404)
     (fetchViaCEP0 world_status_404 ''00000000'') \<and>
   reports_failure ''BrasilAPI'' (LibraryError ''unexpected EOF'')
     (fetchBrasilAPI0 world_read_error ''01153000'') \<and>
   reports_failure ''ViaCEP'' (LibraryError ''invalid character'')
     (fetchViaCEP world_decode_error ''01153000'')"
  using failures_reported[of world_build_error "''%zz''" "LibraryError ''invalid URL escape''"]
    failures_reported[of world_transport_error "''01153000''"
      "LibraryError ''context deadline exceeded''" "''http://viacep.com.br/ws/01153000/json/''"]
    failures_reported[of world_status_404 "''00000000''" _
      "''https://brasilapi.com.br/api/cep/v1/00000000''" "\<lparr>StatusCode = 404, Body = Inr []\<rparr>"]
    failures_reported[of world_status_404 "''00000000''" _
      "''http://viacep.com.br/ws/00000000/json/''" "\<lparr>StatusCode = 404, Body = Inr []\<rparr>"]
    failures_reported[of world_read_error "''01153000''" "LibraryError ''unexpected EOF''"
      "''https://brasilapi.com.br/api/cep/v1/01153000''"
      "\<lparr>StatusCode = 200, Body = Inl (LibraryError ''unexpected EOF'')\<rparr>"]
    failures_reported[of world_decode_error "''01153000''" "LibraryError ''invalid character''"
      "''http://viacep.com.br/ws/01153000/json/''"
      "\<lparr>StatusCode = 200, Body = Inr ''{...}''\<rparr>" "''{...}''"]
  by (simp add: world_build_error_def world_transport_error_def world_status_404_def
      world_read_error_def world_decode_error_def world_ok_def StatusOK_def)

section \<open>Lookup Tasks: the timing map\<close>

lemma fetchBrasilAPI_success_shape:
  assumes "sent (fetchBrasilAPI w cep) = [r]" "Error r = None"
  shows "\<exists>pre post. fetchBrasilAPI w cep =
            pre @ [Lock, MapAssign ''BrasilAPI'' (Duration r), Unlock, Send r] @ post \<and>
          assigned pre = [] \<and> assigned post = []"
proof -
  let ?url = "''https://brasilapi.com.br/api/cep/v1/'' @ cep"
  from assms obtain req resp body data where
    w: "newRequestWithContext w ?url = Inr req" "clientDo w req = Inr resp"
      "StatusCode resp = StatusOK" "Body resp = Inr body" "unmarshalBrasilAPICEP w body = Inr data"
    by (auto simp: fetchBrasilAPI_def Let_def split: sum.splits if_splits)
  with assms have "fetchBrasilAPI w cep =
    [NewRequest ?url, ClientDo req, ReadAll, Unmarshal] @
    [Lock, MapAssign ''BrasilAPI'' (Duration r), Unlock, Send r] @ [BodyClose, WgDone]"
    by (auto simp: fetchBrasilAPI_def Let_def)
  moreover have "assigned [NewRequest ?url, ClientDo req, ReadAll, Unmarshal :: Response op] = []"
    "assigned [BodyClose, WgDone :: Response op] = []" by simp_all
  ultimately show ?thesis by blast
qed

lemma fetchViaCEP_success_shape:
  assumes "sent (fetchViaCEP w cep) = [r]" "Error r = None"
  shows "\<exists>pre post. fetchViaCEP w cep =
            pre @ [Lock, MapAssign ''ViaCEP'' (Duration r), Unlock, Send r] @ post \<and>
          assigned pre = [] \<and> assigned post = []"
proof -
  let ?url = "''http://viacep.com.br/ws/'' @ cep @ ''/json/''"
  from assms obtain req resp body data where
    w: "newRequestWithContext w ?url = Inr req" "clientDo w req = Inr resp"
      "StatusCode resp = StatusOK" "Body resp = Inr body" "unmarshalViaCEP w body = Inr data"
    by (auto simp: fetchViaCEP_def Let_def split: sum.splits if_splits)
  with assms have "fetchViaCEP w cep =
    [NewRequest ?url, ClientDo req, ReadAll, Unmarshal] @
    [Lock, MapAssign ''ViaCEP'' (Duration r), Unlock, Send r] @ [BodyClose, WgDone]"
    by (auto simp: fetchViaCEP_def Let_def)
  moreover have "assigned [NewRequest ?url, ClientDo req, ReadAll, Unmarshal :: Response op] = []"
    "assigned [BodyClose, WgDone :: Response op] = []" by simp_all
  ultimately show ?thesis by blast
qed

lemma failure_never_assigns:
  "sent (fetchBrasilAPI w cep) = [r] \<Longrightarrow> Error r \<noteq> None \<Longrightarrow> assigned (fetchBrasilAPI w cep) = []"
  "sent (fetchViaCEP w cep) = [r] \<Longrightarrow> Error r \<noteq> None \<Longrightarrow> assigned (fetchViaCEP w cep) = []"
  using fetchBrasilAPI_facts(6)[of w cep] fetchViaCEP_facts(6)[of w cep] by simp_all

text \<open>
  Claim C6. In \<^verbatim>\<open>src/main.go\<close> a Lookup Task assigns to the timing map only on its
  success path: there it locks the mutex, stores its duration under its backend name,
  unlocks, and only then sends its Response, which carries the same duration; it assigns
  nowhere else. A task whose Response carries an error assigns nothing. Every assignment
  is made holding the mutex.
\<close>

theorem timing_written_only_on_success:
  "(\<forall>r. sent (fetchBrasilAPI w cep) = [r] \<longrightarrow>
      (if Error r = None
       then \<exists>pre post. fetchBrasilAPI w cep =
              pre @ [Lock, MapAssign ''BrasilAPI'' (Duration r), Unlock, Send r] @ post \<and>
              assigned pre = [] \<and> assigned post = []
       else assigned (fetchBrasilAPI w cep) = [])) \<and>
   (\<forall>r. sent (fetchViaCEP w cep) = [r] \<longrightarrow>
      (if Error r = None
       then \<exists>pre post. fetchViaCEP w cep =
              pre @ [Lock, MapAssign ''ViaCEP'' (Duration r), Unlock, Send r] @ post \<and>
              assigned pre = [] \<and> assigned post = []
       else assigned (fetchViaCEP w cep) = [])) \<and>
   guarded (fetchBrasilAPI w cep) \<and> \<not> holds (fetchBrasilAPI w cep) \<and>
   guarded (fetchViaCEP w cep) \<and> \<not> holds (fetchViaCEP w cep)"
  using fetchBrasilAPI_success_shape[of w cep] fetchViaCEP_success_shape[of w cep]
    failure_never_assigns[of w cep] fetchBrasilAPI_facts(3,4)[of w cep]
    fetchViaCEP_facts(3,4)[of w cep]
  by simp

theorem timing_written_only_on_success_witness:
  "(\<exists>pre post. fetchBrasilAPI (world_ok 250000000) ''01153000'' =
      pre @ [Lock, MapAssign ''BrasilAPI'' 250000000, Unlock,
             Send \<lparr>Data = BrasilData sample_BrasilAPICEP, APIName = ''BrasilAPI'', Error = None,
                   Duration = 250000000\<rparr>] @ post \<and>
      assigned pre = [] \<and> assigned post = []) \<and>
   assigned (fetchViaCEP world_status_404 ''01153000'') = [] \<and>
   guarded (fetchBrasilAPI (world_ok 250000000) ''01153000'') \<and>
   \<not> holds (fetchBrasilAPI (world_ok 250000000) ''01153000'')"
proof -
  let ?r = "\<lparr>Data = BrasilData sample_BrasilAPICEP, APIName = ''BrasilAPI'', Error = None,
             Duration = 250000000\<rparr>"
  let ?e = "\<lparr>Data = NilData, APIName = ''ViaCEP'', Error = Some (StatusCodeError 404),
             Duration = 250000000\<rparr>"
  have s: "sent (fetchBrasilAPI (world_ok 250000000) ''01153000'') = [?r]"
    by (simp add: fetchBrasilAPI_def Let_def world_ok_def StatusOK_def)
  have f: "sent (fetchViaCEP world_status_404 ''01153000'') = [?e]"
    by (simp add: fetchViaCEP_def Let_def world_ok_def world_status_404_def StatusOK_def)
  note a = timing_written_only_on_success[of "world_ok 250000000" "''01153000''"]
  note b = timing_written_only_on_success[of world_status_404 "''01153000''"]
  from a s have "\<exists>pre post. fetchBrasilAPI (world_ok 250000000) ''01153000'' =
      pre @ [Lock, MapAssign ''BrasilAPI'' (Duration ?r), Unlock, Send ?r] @ post \<and>
      assigned pre = [] \<and> assigned post = []"
    by simp
  moreover from b f have "assigned (fetchViaCEP world_status_404 ''01153000'') = []"
    by simp
  moreover from a have "guarded (fetchBrasilAPI (world_ok 250000000) ''01153000'')"
    "\<not> holds (fetchBrasilAPI (world_ok 250000000) ''01153000'')"
    by blast+
  ultimately show ?thesis by simp
qed

section \<open>Race Coordinator: the first select\<close>

text \<open>
  Claim C1. With a postal-code argument, the Coordinator reports the first value that
  arrived on the completion channel: when the channel holds values (and the deadline has
  not fired) the only case the \<^verbatim>\<open>select\<close> can take receives the oldest one. If that
  value carries an error, \<^verbatim>\<open>main\<close> prints that backend's failure and returns, with
  no second receive; if it is a success, the first operations after the receive print
  the backend identifier and the address fields of that value, before anything that
  could wait for the other task. This holds in both variants.
\<close>

theorem first_response_is_reported:
  assumes "2 \<le> length args"
  shows
  "(resultChan s = r # q \<and> \<not> ctxDone s \<longrightarrow> select1_ready s = [Received r]) \<and>
   (resultChan s0 = r0 # q0 \<and> \<not> ctxDone s0 \<longrightarrow> select1_ready s0 = [Received r0]) \<and>
   (Error r = Some err \<longrightarrow>
      after_select (main args (Received r) sel2) = [Print (ErroNaAPI (APIName r) err), Cancel]) \<and>
   (Error r0 = Some err \<longrightarrow>
      after_select (main0 args (Received r0)) = [Print (ErroNaAPI (APIName r0) err), Cancel]) \<and>
   (Error r = None \<and> Data r = BrasilData b \<longrightarrow>
      take 2 (after_select (main args (Received r) sel2)) =
        [Print (RespostaMaisRapida (APIName r) (Duration r)),
         Print (Endereco (BrasilAPICEP.Cep b) (State b) (City b) (Neighborhood b) (Street b))]) \<and>
   (Error r = None \<and> Data r = ViaData v \<longrightarrow>
      take 2 (after_select (main args (Received r) sel2)) =
        [Print (RespostaMaisRapida (APIName r) (Duration r)),
         Print (Endereco (ViaCEP.Cep v) (Uf v) (Localidade v) (Bairro v) (Logradouro v))]) \<and>
   (Error r0 = None \<and> Data r0 = BrasilData b \<longrightarrow>
      take 2 (after_select (main0 args (Received r0))) =
        [Print (RespostaMaisRapida0 (APIName r0)),
         Print (Endereco (BrasilAPICEP.Cep b) (State b) (City b) (Neighborhood b) (Street b))]) \<and>
   (Error r0 = None \<and> Data r0 = ViaData v \<longrightarrow>
      take 2 (after_select (main0 args (Received r0))) =
        [Print (RespostaMaisRapida0 (APIName r0)),
         Print (Endereco (ViaCEP.Cep v) (Uf v) (Localidade v) (Bairro v) (Logradouro v))])"
  using assms
  by (intro conjI impI; (elim conjE)?; simp add: select1_ready_def main_def main0_def Let_def)

theorem first_response_is_reported_witness:
  "select1_ready ((initial :: Response shared)\<lparr>resultChan := [sample_failure, sample_success]\<rparr>) =
     [Received sample_failure] \<and>
   select1_ready ((initial :: Response0 shared)\<lparr>resultChan := [sample_success0]\<rparr>) =
     [Received sample_success0] \<and>
   after_select (main sample_args (Received sample_failure) After) =
     [Print (ErroNaAPI ''ViaCEP'' (StatusCodeError 404)), Cancel] \<and>
   after_select (main0 sample_args (Received sample_failure0)) =
     [Print (ErroNaAPI ''BrasilAPI'' (LibraryError ''context deadline exceeded'')), Cancel] \<and>
   take 2 (after_select (main sample_args (Received sample_success) After)) =
     [Print (RespostaMaisRapida ''BrasilAPI'' 250000000),
      Print (Endereco ''01153-000'' ''SP'' ''Sao Paulo'' ''Barra Funda'' ''Rua Vitorino Carmilo'')] \<and>
   take 2 (after_select (main0 sample_args (Received sample_success0))) =
     [Print (RespostaMaisRapida0 ''ViaCEP''),
      Print (Endereco ''01153-000'' ''SP'' ''Sao Paulo'' ''Barra Funda'' ''Rua Vitorino Carmilo'')]"
proof -
  have a: "2 \<le> length sample_args" by (simp add: sample_args_def)
  note f = first_response_is_reported[OF a,
      of "(initial :: Response shared)\<lparr>resultChan := [sample_failure, sample_success]\<rparr>"
        sample_failure "[sample_success]"
        "(initial :: Response0 shared)\<lparr>resultChan := [sample_success0]\<rparr>"
        sample_failure0 "[]" "StatusCodeError 404" After]
  note f0 = first_response_is_reported[OF a,
      of _ sample_failure _ _ sample_failure0 _ "LibraryError ''context deadline exceeded''"]
  note g = first_response_is_reported[OF a,
      of "(initial :: Response shared)\<lparr>resultChan := [sample_failure, sample_success]\<rparr>"
        sample_success "[]"
        "(initial :: Response0 shared)\<lparr>resultChan := [sample_success0]\<rparr>"
        sample_success0 "[]" _ After sample_BrasilAPICEP sample_ViaCEP]
  show ?thesis
    using f f0 g
    by (simp add: initial_def sample_failure_def sample_success_def sample_failure0_def
        sample_success0_def sample_BrasilAPICEP_def sample_ViaCEP_def)
qed


text \<open>
  Claim C2. The only deadline \<^verbatim>\<open>main\<close> sets is \<^verbatim>\<open>1*time.Second\<close>, that is
  1000000000 ns. When the context is done and no value is in the channel, the only case
  the \<^verbatim>\<open>select\<close> can take is the deadline; \<^verbatim>\<open>main\<close> then prints the timeout line and
  returns (its deferred \<^verbatim>\<open>cancel()\<close> runs), performing no operation that can block.
  This holds in both variants.
\<close>

theorem deadline_reports_timeout:
  assumes "2 \<le> length args"
  shows
  "timeouts (main args sel1 sel2) = [1000000000] \<and>
   timeouts (main0 args sel10) = [1000000000] \<and>
   (resultChan s = [] \<and> ctxDone s \<longrightarrow> select1_ready s = [Deadline]) \<and>
   after_select (main args Deadline sel2) = [Print ErroTimeout, Cancel] \<and>
   after_select (main0 args Deadline) = [Print ErroTimeout, Cancel] \<and>
   filter blocking (after_select (main args Deadline sel2)) = [] \<and>
   filter blocking (after_select (main0 args Deadline)) = []"
  using assms
  by (intro conjI impI; (elim conjE)?;
      simp add: select1_ready_def main_def main0_def Let_def Second_def Millisecond_def
        split: select1.split select2.split option.split payload.split)

theorem deadline_reports_timeout_witness:
  "select1_ready ((initial :: Response shared)\<lparr>ctxDone := True\<rparr>) = [Deadline] \<and>
   timeouts (main sample_args Deadline After) = [1000000000] \<and>
   timeouts (main0 sample_args Deadline) = [1000000000] \<and>
   main sample_args Deadline After =
     [Print (Buscando ''01153000''), WithTimeout 1000000000, MakeChan 2, WgAdd 2, MakeMap,
      Go (FetchBrasilAPI ''01153000''), Go (FetchViaCEP ''01153000''), CtxDone,
      Print ErroTimeout, Cancel] \<and>
   after_select (main0 sample_args Deadline) = [Print ErroTimeout, Cancel]"
proof -
  have a: "2 \<le> length sample_args" by (simp add: sample_args_def)
  have m: "main sample_args Deadline After =
     [Print (Buscando ''01153000''), WithTimeout 1000000000, MakeChan 2, WgAdd 2, MakeMap,
      Go (FetchBrasilAPI ''01153000''), Go (FetchViaCEP ''01153000''), CtxDone] @
     after_select (main sample_args Deadline After)"
    by (simp add: main_def Let_def sample_args_def Second_def Millisecond_def)
  show ?thesis
    using deadline_reports_timeout[OF a,
        of Deadline After Deadline "(initial :: Response shared)\<lparr>ctxDone := True\<rparr>"] m
    by (simp add: initial_def)
qed

section \<open>Race Coordinator: the printed address\<close>

text \<open>
  Claim C8. For a decoded payload, the five fields \<^verbatim>\<open>main\<close> prints (postal code, state,
  city, neighbourhood, street, in this order) are the struct fields tagged
  \<open>cep\<close>, \<open>state\<close>, \<open>city\<close>, \<open>neighborhood\<close>, \<open>street\<close> for BrasilAPI and
  \<open>cep\<close>, \<open>uf\<close>, \<open>localidade\<close>, \<open>bairro\<close>, \<open>logradouro\<close> for ViaCEP. The line is a
  function of the payload alone, so it is the same on every run; the whole output is the
  search line, the winner line and this line. This holds in both variants.
\<close>

theorem address_fields_by_backend:
  assumes "2 \<le> length args" "Error r = None" "Error r0 = None"
  shows
  "(Data r = BrasilData b \<longrightarrow>
      (\<exists>cep state city neighborhood street.
         map (BrasilAPICEP_member b) [''cep'', ''state'', ''city'', ''neighborhood'', ''street''] =
           map Some [cep, state, city, neighborhood, street] \<and>
         printed (main args (Received r) sel2) =
           [Buscando (args ! 1), RespostaMaisRapida (APIName r) (Duration r),
            Endereco cep state city neighborhood street])) \<and>
   (Data r = ViaData v \<longrightarrow>
      (\<exists>cep uf localidade bairro logradouro.
         map (ViaCEP_member v) [''cep'', ''uf'', ''localidade'', ''bairro'', ''logradouro''] =
           map Some [cep, uf, localidade, bairro, logradouro] \<and>
         printed (main args (Received r) sel2) =
           [Buscando (args ! 1), RespostaMaisRapida (APIName r) (Duration r),
            Endereco cep uf localidade bairro logradouro])) \<and>
   (Data r0 = BrasilData b \<longrightarrow>
      (\<exists>cep state city neighborhood street.
         map (BrasilAPICEP_member b) [''cep'', ''state'', ''city'', ''neighborhood'', ''street''] =
           map Some [cep, state, city, neighborhood, street] \<and>
         printed (main0 args (Received r0)) =
           [Buscando (args ! 1), RespostaMaisRapida0 (APIName r0),
            Endereco cep state city neighborhood street])) \<and>
   (Data r0 = ViaData v \<longrightarrow>
      (\<exists>cep uf localidade bairro logradouro.
         map (ViaCEP_member v) [''cep'', ''uf'', ''localidade'', ''bairro'', ''logradouro''] =
           map Some [cep, uf, localidade, bairro, logradouro] \<and>
         printed (main0 args (Received r0)) =
           [Buscando (args ! 1), RespostaMaisRapida0 (APIName r0),
            Endereco cep uf localidade bairro logradouro]))"
  using assms
  by (intro conjI impI;
      simp add: main_def main0_def Let_def BrasilAPICEP_member_def ViaCEP_member_def
        split: select2.split)

theorem address_fields_by_backend_witness:
  "printed (main sample_args (Received sample_success) After) =
     [Buscando ''01153000'', RespostaMaisRapida ''BrasilAPI'' 250000000,
      Endereco ''01153-000'' ''SP'' ''Sao Paulo'' ''Barra Funda'' ''Rua Vitorino Carmilo''] \<and>
   printed (main0 sample_args (Received sample_success0)) =
     [Buscando ''01153000'', RespostaMaisRapida0 ''ViaCEP'',
      Endereco ''01153-000'' ''SP'' ''Sao Paulo'' ''Barra Funda'' ''Rua Vitorino Carmilo'']"
proof -
  have a: "2 \<le> length sample_args" by (simp add: sample_args_def)
  have e: "Error sample_success = None" "Error sample_success0 = None"
    by (simp_all add: sample_success_def sample_success0_def)
  have d: "Data sample_success = BrasilData sample_BrasilAPICEP"
    "Data sample_success0 = ViaData sample_ViaCEP"
    "APIName sample_success = ''BrasilAPI''" "Duration sample_success = 250000000"
    "APIName sample_success0 = ''ViaCEP''" "sample_args ! 1 = ''01153000''"
    by (simp_all add: sample_success_def sample_success0_def sample_args_def)
  from address_fields_by_backend[OF a e, of sample_BrasilAPICEP After sample_ViaCEP] d
  show ?thesis
    by (auto simp: BrasilAPICEP_member_def ViaCEP_member_def sample_BrasilAPICEP_def
        sample_ViaCEP_def)
qed

section \<open>Race Coordinator: failure and timeout end the run\<close>

text \<open>
  Claim C10. In \<^verbatim>\<open>src/main.go\<close>, when the first value received carries an error, or
  the deadline case is taken, \<^verbatim>\<open>main\<close> starts the two Lookup Tasks only, never the
  aggregation goroutine: from any shared state, whatever the timing map holds, the rest
  of \<^verbatim>\<open>main\<close> runs without blocking and adds exactly the error line or the timeout line
  to the output. The Lookup Tasks print nothing and the header of the comparative block
  is printed by the aggregation goroutine only, which \<^verbatim>\<open>main\<close> starts on success.
\<close>

theorem no_timing_block_after_failure_or_timeout:
  assumes "2 \<le> length args"
  shows
  "(Error r = Some err \<longrightarrow>
      spawned (main args (Received r) sel2) = [FetchBrasilAPI (args ! 1), FetchViaCEP (args ! 1)] \<and>
      printed (main args (Received r) sel2) = [Buscando (args ! 1), ErroNaAPI (APIName r) err] \<and>
      exec_all (after_select (main args (Received r) sel2)) s =
        Next (s\<lparr>stdout := stdout s @ [ErroNaAPI (APIName r) err], ctxDone := True\<rparr>)) \<and>
   spawned (main args Deadline sel2) = [FetchBrasilAPI (args ! 1), FetchViaCEP (args ! 1)] \<and>
   printed (main args Deadline sel2) = [Buscando (args ! 1), ErroTimeout] \<and>
   exec_all (after_select (main args Deadline sel2)) s =
     Next (s\<lparr>stdout := stdout s @ [ErroTimeout], ctxDone := True\<rparr>) \<and>
   (Error r = None \<longrightarrow>
      spawned (main args (Received r) sel2) =
        [FetchBrasilAPI (args ! 1), FetchViaCEP (args ! 1), Aggregator]) \<and>
   printed (fetchBrasilAPI wA cep) = [] \<and> printed (fetchViaCEP wB cep) = [] \<and>
   hd (printed (aggregator timings order1 order2 :: Response op list)) = Comparativo"
proof -
  have "printed (fetchBrasilAPI wA cep) = []" "printed (fetchViaCEP wB cep) = []"
    by (simp_all add: fetchBrasilAPI_def fetchViaCEP_def Let_def split: sum.split)
  moreover have
    "hd (printed (aggregator timings order1 order2 :: Response op list)) = Comparativo"
    by (simp add: aggregator_def)
  moreover have "Error r = None \<Longrightarrow> spawned (main args (Received r) sel2) =
        [FetchBrasilAPI (args ! 1), FetchViaCEP (args ! 1), Aggregator]"
    using assms by (simp add: main_def Let_def split: payload.split select2.split)
  ultimately show ?thesis
    using assms by (simp add: main_def Let_def)
qed

theorem no_timing_block_after_failure_or_timeout_witness:
  "spawned (main sample_args (Received sample_failure) After) =
     [FetchBrasilAPI ''01153000'', FetchViaCEP ''01153000''] \<and>
   printed (main sample_args (Received sample_failure) After) =
     [Buscando ''01153000'', ErroNaAPI ''ViaCEP'' (StatusCodeError 404)] \<and>
   exec_all (after_select (main sample_args (Received sample_failure) After))
       ((initial :: Response shared)\<lparr>timingResults := [(''BrasilAPI'', 250000000)]\<rparr>) =
     Next ((initial :: Response shared)\<lparr>timingResults := [(''BrasilAPI'', 250000000)],
       stdout := [ErroNaAPI ''ViaCEP'' (StatusCodeError 404)], ctxDone := True\<rparr>) \<and>
   spawned (main sample_args (Received sample_success) After) =
     [FetchBrasilAPI ''01153000'', FetchViaCEP ''01153000'', Aggregator]"
proof -
  have a: "2 \<le> length sample_args" by (simp add: sample_args_def)
  have d: "Error sample_failure = Some (StatusCodeError 404)" "APIName sample_failure = ''ViaCEP''"
    "Error sample_success = None" "sample_args ! 1 = ''01153000''"
    by (simp_all add: sample_failure_def sample_success_def sample_args_def)
  from no_timing_block_after_failure_or_timeout[OF a, of sample_failure "StatusCodeError 404" After
      "(initial :: Response shared)\<lparr>timingResults := [(''BrasilAPI'', 250000000)]\<rparr>"]
    no_timing_block_after_failure_or_timeout[OF a, of sample_success _ After] d
  show ?thesis
    by (simp add: initial_def)
qed

section \<open>Timing Aggregator: the comparison\<close>


text \<open>With equal durations the entry visited first is reported as both the fastest and
  the slowest.\<close>

lemma aggregator_tie:
  assumes "k1 \<noteq> []"
  shows "take 3 (printed (aggregator [(k1, d), (k2, d)] [(k1, d), (k2, d)] order2)) =
           [Comparativo, APIMaisRapida k1 d, APIMaisLenta k1 d]"
  using assms by (simp add: aggregator_def)



section \<open>The completion channel never blocks a Lookup Task\<close>

lemma guarded_at_network: "guarded ops \<Longrightarrow> at_network ops \<Longrightarrow> \<not> holds ops"
  by (cases ops rule: guarded.cases) auto

lemma sample_run:
  "run sample_schedule (launched (world_ok 250000000) world_status_404 sample_args) =
     \<lparr>taskA = [], taskB = [],
      shr = \<lparr>resultChan =
               [\<lparr>Data = NilData, APIName = ''ViaCEP'', Error = Some (StatusCodeError 404),
                  Duration = 250000000\<rparr>,
                \<lparr>Data = BrasilData sample_BrasilAPICEP, APIName = ''BrasilAPI'', Error = None,
                  Duration = 250000000\<rparr>],
             capacity = 2, timingResults = [(''BrasilAPI'', 250000000)], timingMutex = False,
             wg = 0, ctxDone = False, stdout = [Buscando ''01153000'']\<rparr>,
      fatal = False\<rparr>"
  by (simp add: sample_schedule_def launched_def main_def Let_def initial_def sample_args_def
      fetchBrasilAPI_def fetchViaCEP_def world_ok_def world_status_404_def StatusOK_def)

text \<open>
  Claim C7. In both variants \<^verbatim>\<open>main\<close> makes the completion channel with capacity 2 and
  starts exactly two Lookup Tasks before its \<^verbatim>\<open>select\<close>. In the system so launched, under
  every schedule of the two tasks and the reader (also those in which nobody ever reads),
  a task that has reached its send is never blocked on it, and from every state reached
  the two tasks can run to their end without anybody reading.
\<close>

theorem sends_never_block:
  fixes args :: "string list" and sched :: "actor list" and wA wB :: world
  assumes "2 \<le> length args"
  defines "c \<equiv> run sched (launched wA wB args)"
  defines "c0 \<equiv> run sched (launched0 wA wB args)"
  shows
  "chans (main args sel1 sel2) = [2] \<and>
   spawned (before_select (main args sel1 sel2)) =
     [FetchBrasilAPI (args ! 1), FetchViaCEP (args ! 1)] \<and>
   chans (main0 args sel0) = [2] \<and>
   spawned (before_select (main0 args sel0)) =
     [FetchBrasilAPI (args ! 1), FetchViaCEP (args ! 1)] \<and>
   capacity (shr (launched wA wB args)) = 2 \<and>
   capacity (shr (launched0 wA wB args)) = 2 \<and>
   \<not> send_blocked (taskA c) (shr c) \<and> \<not> send_blocked (taskB c) (shr c) \<and>
   \<not> send_blocked (taskA c0) (shr c0) \<and> \<not> send_blocked (taskB c0) (shr c0) \<and>
   (\<exists>more. Reader \<notin> set more \<and> taskA (run more c) = [] \<and> taskB (run more c) = []) \<and>
   (\<exists>more. Reader \<notin> set more \<and> taskA (run more c0) = [] \<and> taskB (run more c0) = [])"
proof -
  have m: "chans (main args sel1 sel2) = [2]"
    "spawned (before_select (main args sel1 sel2)) =
       [FetchBrasilAPI (args ! 1), FetchViaCEP (args ! 1)]"
    using assms(1)
    by (simp_all add: main_def Let_def
        split: select1.split select2.split option.split payload.split)
  have m0: "chans (main0 args sel0) = [2]"
    "spawned (before_select (main0 args sel0)) =
       [FetchBrasilAPI (args ! 1), FetchViaCEP (args ! 1)]"
    using assms(1)
    by (simp_all add: main0_def Let_def split: select1.split option.split payload.split)
  note i = inv_run[OF inv_launched[OF assms(1), of wA wB], of sched]
  note i0 = inv_run[OF inv_launched0[OF assms(1), of wA wB], of sched]
  from inv_no_send_blocked[OF i] inv_no_send_blocked[OF i0]
  have b: "\<not> send_blocked (taskA c) (shr c)" "\<not> send_blocked (taskB c) (shr c)"
    "\<not> send_blocked (taskA c0) (shr c0)" "\<not> send_blocked (taskB c0) (shr c0)"
    by (simp_all add: c_def c0_def)
  from can_finish[OF i] can_finish[OF i0]
  have f: "\<exists>more. Reader \<notin> set more \<and> taskA (run more c) = [] \<and> taskB (run more c) = []"
    "\<exists>more. Reader \<notin> set more \<and> taskA (run more c0) = [] \<and> taskB (run more c0) = []"
    by (simp_all add: c_def c0_def)
  from m m0 b f launched_shr[OF assms(1)] launched0_shr[OF assms(1)] show ?thesis
    by simp
qed

theorem sends_never_block_witness:
  "capacity (shr (launched (world_ok 250000000) world_status_404 sample_args)) = 2 \<and>
   chans (main sample_args Deadline After) = [2] \<and>
   spawned (before_select (main sample_args Deadline After)) =
     [FetchBrasilAPI ''01153000'', FetchViaCEP ''01153000''] \<and>
   Reader \<notin> set sample_schedule \<and>
   taskA (run sample_schedule (launched (world_ok 250000000) world_status_404 sample_args)) = [] \<and>
   taskB (run sample_schedule (launched (world_ok 250000000) world_status_404 sample_args)) = [] \<and>
   map APIName (resultChan (shr
     (run sample_schedule (launched (world_ok 250000000) world_status_404 sample_args)))) =
     [''ViaCEP'', ''BrasilAPI'']"
proof -
  have a: "2 \<le> length sample_args" by (simp add: sample_args_def)
  have d: "sample_args ! 1 = ''01153000''" by (simp add: sample_args_def)
  have r: "Reader \<notin> set sample_schedule" by (simp add: sample_schedule_def)
  from sends_never_block[OF a, of Deadline After Deadline "world_ok 250000000" world_status_404
      sample_schedule] d r
  show ?thesis
    by (simp add: sample_run)
qed

section \<open>Concurrent writes to the timing map\<close>

lemma ends_done_tl: "ends_done (x # ops) \<Longrightarrow> ends_done ops"
  by (cases ops) simp_all

lemma ends_done_dones: "ends_done ops \<Longrightarrow> dones ops = 0 \<Longrightarrow> ops = []"
  by (induction ops rule: ends_done.induct) (auto elim: dones.elims)

lemma quiet_exec:
  assumes "task_op x" "exec x s = Next s'" "dones (x # ops) + n = wg s"
  shows "dones ops + n = wg s'"
  using assms by (cases x rule: task_op_cases) (auto split: if_splits)

lemma inv_quiet_step:
  assumes "inv_ops c" "inv_quiet c"
  shows "inv_quiet (step a c)"
  using assms(1)
proof (cases rule: step_cases[where a = a])
  case (StepA x ops s')
  with quiet_exec[OF StepA(2,3), of ops "dones (taskB c)"] assms(2) ends_done_tl[of x ops]
  show ?thesis by (simp add: inv_quiet_def)
next
  case (StepB x ops s')
  with quiet_exec[OF StepB(2,3), of ops "dones (taskA c)"] assms(2) ends_done_tl[of x ops]
  show ?thesis by (simp add: inv_quiet_def add.commute)
qed (use assms(2) in \<open>simp_all add: inv_quiet_def\<close>)

lemma inv_quiet_run: "inv_ops c \<Longrightarrow> inv_quiet c \<Longrightarrow> inv_quiet (run sched c)"
proof (induction sched arbitrary: c)
  case Nil
  then show ?case by simp
next
  case (Cons a sched)
  from Cons.prems(1) have "inv_ops (step a c)" by (rule inv_ops_step)
  moreover from Cons.prems have "inv_quiet (step a c)" by (rule inv_quiet_step)
  ultimately have "inv_quiet (run sched (step a c))" by (rule Cons.IH)
  then show ?case by simp
qed

lemma fetch_ends_done: "ends_done (fetchBrasilAPI w cep)" "ends_done (fetchViaCEP w cep)"
  by (simp_all add: fetchBrasilAPI_def fetchViaCEP_def Let_def split: sum.split)

lemma wait_returns_after_tasks:
  assumes "2 \<le> length args" "wg (shr (run sched (launched wA wB args))) = 0"
  shows "taskA (run sched (launched wA wB args)) = [] \<and>
         taskB (run sched (launched wA wB args)) = []"
proof -
  let ?c = "launched wA wB args"
  have "inv_quiet ?c"
    using launched_shr[OF assms(1), of wA wB]
    by (simp add: inv_quiet_def launched_def fetch_ends_done fetchBrasilAPI_facts(5)
        fetchViaCEP_facts(5))
  moreover have "inv_ops ?c" using inv_launched[OF assms(1), of wA wB] by (simp add: inv_def)
  ultimately have "inv_quiet (run sched ?c)" by (rule inv_quiet_run[rotated])
  with assms(2) show ?thesis
    by (auto simp: inv_quiet_def dest: ends_done_dones)
qed

lemma distinct_le1: "length xs \<le> 1 \<Longrightarrow> distinct xs"
  by (cases xs) auto

lemma final_timing_map:
  assumes "2 \<le> length args"
    and "taskA (run sched (launched wA wB args)) = []"
    and "taskB (run sched (launched wA wB args)) = []"
  shows "set (timingResults (shr (run sched (launched wA wB args)))) =
           (\<lambda>r. (APIName r, Duration r)) `
             {r \<in> set (sent (fetchBrasilAPI wA (args ! 1)) @ sent (fetchViaCEP wB (args ! 1))).
                Error r = None}"
proof -
  let ?c = "run sched (launched wA wB args)"
  let ?A = "assigned (fetchBrasilAPI wA (args ! 1))"
  let ?B = "assigned (fetchViaCEP wB (args ! 1))"
  from inv_run[OF inv_launched[OF assms(1), of wA wB], of sched] assms(2,3)
  have m: "map_of (timingResults (shr ?c)) = map_of ?A ++ map_of ?B"
    and d: "distinct (map fst (timingResults (shr ?c)))"
    by (simp_all add: inv_def inv_map_def)
  have k: "fst ` set ?A \<inter> fst ` set ?B = {}"
    using fetchBrasilAPI_facts(10)[of wA "args ! 1"] fetchViaCEP_facts(10)[of wB "args ! 1"]
    by force
  have "distinct (map fst ?A)" "distinct (map fst ?B)"
    using fetchBrasilAPI_facts(9)[of wA "args ! 1"] fetchViaCEP_facts(9)[of wB "args ! 1"]
    by (simp_all add: distinct_le1)
  with k have d': "distinct (map fst (?B @ ?A))" by auto
  from m have "map_of (timingResults (shr ?c)) = map_of (?B @ ?A)" by simp
  then have "set (timingResults (shr ?c)) = set (?B @ ?A)"
    by (rule iffD1[OF map_of_inject_set[OF d d']])
  also have "\<dots> = (\<lambda>r. (APIName r, Duration r)) `
             {r \<in> set (sent (fetchBrasilAPI wA (args ! 1)) @ sent (fetchViaCEP wB (args ! 1))).
                Error r = None}"
    unfolding fetchBrasilAPI_facts(6) fetchViaCEP_facts(6) by auto
  finally show ?thesis .
qed

text \<open>
  Claim C9. In \<^verbatim>\<open>src/main.go\<close>, under every schedule of the two Lookup Tasks: the two
  tasks are never both at an assignment to the timing map (no data race), the mutex is
  locked exactly when one of them holds it, a task at an assignment holds the mutex, a
  task at a network operation does not, and no operation is fatal. Once both tasks have
  run to their end, the entries of the map are exactly the backend name and duration of
  every Response sent without an error, one entry per key; and the tasks can always run
  to their end. The counter of the wait group is 0 only when both tasks have run to their
  end, so \<^verbatim>\<open>wg.Wait()\<close> lets the reader of the map through only then.
\<close>

theorem timing_map_keeps_every_entry:
  fixes args :: "string list" and sched :: "actor list" and wA wB :: world
  assumes "2 \<le> length args"
  defines "c \<equiv> run sched (launched wA wB args)"
  shows
  "\<not> race c \<and> \<not> fatal c \<and>
   timingMutex (shr c) = (holds (taskA c) \<or> holds (taskB c)) \<and>
   \<not> (holds (taskA c) \<and> holds (taskB c)) \<and>
   (writing (taskA c) \<longrightarrow> holds (taskA c)) \<and>
   (writing (taskB c) \<longrightarrow> holds (taskB c)) \<and>
   \<not> (at_network (taskA c) \<and> holds (taskA c)) \<and>
   \<not> (at_network (taskB c) \<and> holds (taskB c)) \<and>
   distinct (map fst (timingResults (shr c))) \<and>
   (wg (shr c) = 0 \<longrightarrow> taskA c = [] \<and> taskB c = []) \<and>
   (taskA c = [] \<and> taskB c = [] \<longrightarrow>
      set (timingResults (shr c)) =
        (\<lambda>r. (APIName r, Duration r)) `
          {r \<in> set (sent (fetchBrasilAPI wA (args ! 1)) @ sent (fetchViaCEP wB (args ! 1))).
             Error r = None}) \<and>
   (\<exists>more. Reader \<notin> set more \<and> taskA (run more c) = [] \<and> taskB (run more c) = [])"
proof -
  note i = inv_run[OF inv_launched[OF assms(1), of wA wB], of sched]
  from i have g: "guarded (taskA c)" "guarded (taskB c)"
    and h: "timingMutex (shr c) = (holds (taskA c) \<or> holds (taskB c))"
      "\<not> (holds (taskA c) \<and> holds (taskB c))"
    and d: "distinct (map fst (timingResults (shr c)))" and nf: "\<not> fatal c"
    by (simp_all add: inv_def inv_mutex_def inv_map_def c_def)
  from inv_no_race[OF i] have nr: "\<not> race c" by (simp add: c_def)
  from can_finish[OF i]
  have f: "\<exists>more. Reader \<notin> set more \<and> taskA (run more c) = [] \<and> taskB (run more c) = []"
    by (simp add: c_def)
  have fin: "taskA c = [] \<and> taskB c = [] \<longrightarrow>
      set (timingResults (shr c)) =
        (\<lambda>r. (APIName r, Duration r)) `
          {r \<in> set (sent (fetchBrasilAPI wA (args ! 1)) @ sent (fetchViaCEP wB (args ! 1))).
             Error r = None}"
    using final_timing_map[OF assms(1), of sched wA wB] by (simp add: c_def)
  from g have w: "writing (taskA c) \<longrightarrow> holds (taskA c)" "writing (taskB c) \<longrightarrow> holds (taskB c)"
    and n: "\<not> (at_network (taskA c) \<and> holds (taskA c))"
      "\<not> (at_network (taskB c) \<and> holds (taskB c))"
    using writing_holds guarded_at_network by blast+
  from wait_returns_after_tasks[OF assms(1), of sched wA wB]
  have q: "wg (shr c) = 0 \<longrightarrow> taskA c = [] \<and> taskB c = []"
    by (simp add: c_def)
  from nr nf h w n d q fin f show ?thesis by blast
qed

theorem timing_map_keeps_every_entry_witness:
  "taskA (run sample_schedule (launched (world_ok 250000000) world_status_404 sample_args)) = [] \<and>
   taskB (run sample_schedule (launched (world_ok 250000000) world_status_404 sample_args)) = [] \<and>
   set (timingResults (shr
     (run sample_schedule (launched (world_ok 250000000) world_status_404 sample_args)))) =
     {(''BrasilAPI'', 250000000)} \<and>
   \<not> race (run sample_schedule (launched (world_ok 250000000) world_status_404 sample_args)) \<and>
   \<not> fatal (run sample_schedule (launched (world_ok 250000000) world_status_404 sample_args))"
proof -
  have a: "2 \<le> length sample_args" by (simp add: sample_args_def)
  have s: "sent (fetchBrasilAPI (world_ok 250000000) (sample_args ! 1)) =
      [\<lparr>Data = BrasilData sample_BrasilAPICEP, APIName = ''BrasilAPI'', Error = None,
        Duration = 250000000\<rparr>]"
    "sent (fetchViaCEP world_status_404 (sample_args ! 1)) =
      [\<lparr>Data = NilData, APIName = ''ViaCEP'', Error = Some (StatusCodeError 404),
        Duration = 250000000\<rparr>]"
    by (simp_all add: fetchBrasilAPI_def fetchViaCEP_def Let_def world_ok_def
        world_status_404_def StatusOK_def)
  note t = timing_map_keeps_every_entry[OF a, of sample_schedule "world_ok 250000000"
      world_status_404]
  have e: "taskA (run sample_schedule (launched (world_ok 250000000) world_status_404 sample_args)) = []"
    "taskB (run sample_schedule (launched (world_ok 250000000) world_status_404 sample_args)) = []"
    by (simp_all add: sample_run)
  from t e have "set (timingResults (shr
     (run sample_schedule (launched (world_ok 250000000) world_status_404 sample_args)))) =
       (\<lambda>r. (APIName r, Duration r)) `
          {r \<in> set (sent (fetchBrasilAPI (world_ok 250000000) (sample_args ! 1)) @
                     sent (fetchViaCEP world_status_404 (sample_args ! 1))).
             Error r = None}"
    by blast
  also have "\<dots> = {(''BrasilAPI'', 250000000)}"
    unfolding s by force
  finally have "set (timingResults (shr
     (run sample_schedule (launched (world_ok 250000000) world_status_404 sample_args)))) =
     {(''BrasilAPI'', 250000000)}" .
  with t e show ?thesis by blast
qed

section \<open>Lookup Tasks: one result per invocation\<close>

lemma sent_exec:
  assumes "task_op x" "exec x s = Next s'"
  shows "(sent (x # ops) = sent ops \<and> resultChan s' = resultChan s) \<or>
         (\<exists>r. sent (x # ops) = r # sent ops \<and> resultChan s' = resultChan s @ [r])"
  using assms by (cases x rule: task_op_cases) (auto split: if_splits)

lemma inv_sent_step:
  assumes "inv_ops c" "inv_sent R c" "a \<noteq> Reader"
  shows "inv_sent R (step a c)"
  using assms(1)
proof (cases rule: step_cases[where a = a])
  case (StepA x ops s')
  with sent_exec[OF StepA(2,3), of ops] assms(2) show ?thesis
    by (auto simp: inv_sent_def)
next
  case (StepB x ops s')
  with sent_exec[OF StepB(2,3), of ops] assms(2) show ?thesis
    by (auto simp: inv_sent_def)
next
  case (Read r q)
  with assms(3) show ?thesis by simp
qed (use assms(2) in \<open>simp_all add: inv_sent_def\<close>)

lemma inv_sent_run:
  "inv_ops c \<Longrightarrow> inv_sent R c \<Longrightarrow> Reader \<notin> set sched \<Longrightarrow> inv_sent R (run sched c)"
proof (induction sched arbitrary: c)
  case Nil
  then show ?case by simp
next
  case (Cons a sched)
  from Cons.prems have a: "a \<noteq> Reader" "Reader \<notin> set sched" by auto
  from Cons.prems(1) have "inv_ops (step a c)" by (rule inv_ops_step)
  moreover from Cons.prems(1,2) a(1) have "inv_sent R (step a c)" by (rule inv_sent_step)
  ultimately have "inv_sent R (run sched (step a c))" using a(2) by (rule Cons.IH)
  then show ?case by simp
qed

lemma delivered:
  assumes "2 \<le> length args" "Reader \<notin> set sched"
    and "taskA (run sched (launched wA wB args)) = []"
    and "taskB (run sched (launched wA wB args)) = []"
  shows "mset (map APIName (resultChan (shr (run sched (launched wA wB args))))) =
           {#''BrasilAPI'', ''ViaCEP''#}"
proof -
  let ?c = "launched wA wB args"
  let ?R = "mset (sent (fetchBrasilAPI wA (args ! 1))) + mset (sent (fetchViaCEP wB (args ! 1)))"
  have s: "inv_sent ?R ?c"
    using launched_shr[OF assms(1), of wA wB] by (simp add: inv_sent_def launched_def)
  have "inv_ops ?c" using inv_launched[OF assms(1), of wA wB] by (simp add: inv_def)
  from inv_sent_run[OF this s assms(2)] have "inv_sent ?R (run sched ?c)" .
  with assms(3,4) have "mset (resultChan (shr (run sched ?c))) = ?R"
    by (simp add: inv_sent_def)
  then have "mset (map APIName (resultChan (shr (run sched ?c)))) =
      mset (map APIName (sent (fetchBrasilAPI wA (args ! 1)))) +
      mset (map APIName (sent (fetchViaCEP wB (args ! 1))))"
    by (metis image_mset_union mset_map)
  then show ?thesis
    by (simp add: fetchBrasilAPI_facts(7) fetchViaCEP_facts(7))
qed

lemma fetch0_names:
  "map APIName (sent (fetchBrasilAPI0 w cep)) = [''BrasilAPI'']"
  "map APIName (sent (fetchViaCEP0 w cep)) = [''ViaCEP'']"
  by (simp_all add: fetchBrasilAPI0_def fetchViaCEP0_def Let_def split: sum.split)

lemma delivered0:
  assumes "2 \<le> length args" "Reader \<notin> set sched"
    and "taskA (run sched (launched0 wA wB args)) = []"
    and "taskB (run sched (launched0 wA wB args)) = []"
  shows "mset (map APIName (resultChan (shr (run sched (launched0 wA wB args))))) =
           {#''BrasilAPI'', ''ViaCEP''#}"
proof -
  let ?c = "launched0 wA wB args"
  let ?R = "mset (sent (fetchBrasilAPI0 wA (args ! 1))) + mset (sent (fetchViaCEP0 wB (args ! 1)))"
  have s: "inv_sent ?R ?c"
    using launched0_shr[OF assms(1), of wA wB] by (simp add: inv_sent_def launched0_def)
  have "inv_ops ?c" using inv_launched0[OF assms(1), of wA wB] by (simp add: inv_def)
  from inv_sent_run[OF this s assms(2)] have "inv_sent ?R (run sched ?c)" .
  with assms(3,4) have "mset (resultChan (shr (run sched ?c))) = ?R"
    by (simp add: inv_sent_def)
  then have "mset (map APIName (resultChan (shr (run sched ?c)))) =
      mset (map APIName (sent (fetchBrasilAPI0 wA (args ! 1)))) +
      mset (map APIName (sent (fetchViaCEP0 wB (args ! 1))))"
    by (metis image_mset_union mset_map)
  then show ?thesis
    by (simp add: fetch0_names)
qed

lemma sample_run0:
  "taskA (run sample_schedule (launched0 (world_ok 250000000) world_status_404 sample_args)) = []"
  "taskB (run sample_schedule (launched0 (world_ok 250000000) world_status_404 sample_args)) = []"
  by (simp_all add: sample_schedule_def launched0_def main0_def Let_def initial_def
      sample_args_def fetchBrasilAPI0_def fetchViaCEP0_def world_ok_def world_status_404_def
      StatusOK_def)

text \<open>
  Claim C3. Every invocation of a Lookup Task sends exactly one Response on the
  completion channel, whatever the outside world answers (request construction error,
  transport error, status other than 200, body read error, decode error, success), in
  both variants of the program; after that send the task only runs its deferred calls
  (\<^verbatim>\<open>resp.Body.Close()\<close>, \<^verbatim>\<open>wg.Done()\<close>) and returns. In the launched system, when both
  tasks have run to their end and nobody has read, the channel holds exactly one
  Response of each backend: none is duplicated and none is dropped.
\<close>

theorem lookup_task_sends_exactly_once:
  "length (sent (fetchBrasilAPI w cep)) = 1 \<and>
   length (sent (fetchViaCEP w cep)) = 1 \<and>
   length (sent (fetchBrasilAPI0 w cep)) = 1 \<and>
   length (sent (fetchViaCEP0 w cep)) = 1 \<and>
   filter (\<lambda>x. x \<noteq> BodyClose \<and> x \<noteq> WgDone) (tl (from_send (fetchBrasilAPI w cep))) = [] \<and>
   filter (\<lambda>x. x \<noteq> BodyClose \<and> x \<noteq> WgDone) (tl (from_send (fetchViaCEP w cep))) = [] \<and>
   filter (\<lambda>x. x \<noteq> BodyClose) (tl (from_send (fetchBrasilAPI0 w cep))) = [] \<and>
   filter (\<lambda>x. x \<noteq> BodyClose) (tl (from_send (fetchViaCEP0 w cep))) = [] \<and>
   (2 \<le> length args \<and> Reader \<notin> set sched \<and>
    taskA (run sched (launched wA wB args)) = [] \<and>
    taskB (run sched (launched wA wB args)) = [] \<longrightarrow>
      mset (map APIName (resultChan (shr (run sched (launched wA wB args))))) =
        {#''BrasilAPI'', ''ViaCEP''#}) \<and>
   (2 \<le> length args \<and> Reader \<notin> set sched \<and>
    taskA (run sched (launched0 wA wB args)) = [] \<and>
    taskB (run sched (launched0 wA wB args)) = [] \<longrightarrow>
      mset (map APIName (resultChan (shr (run sched (launched0 wA wB args))))) =
        {#''BrasilAPI'', ''ViaCEP''#})"
proof -
  have "filter (\<lambda>x. x \<noteq> BodyClose \<and> x \<noteq> WgDone) (tl (from_send (fetchBrasilAPI w cep))) = []"
    by (simp add: fetchBrasilAPI_def Let_def split: sum.split)
  moreover have "filter (\<lambda>x. x \<noteq> BodyClose \<and> x \<noteq> WgDone) (tl (from_send (fetchViaCEP w cep))) = []"
    by (simp add: fetchViaCEP_def Let_def split: sum.split)
  moreover have "filter (\<lambda>x. x \<noteq> BodyClose) (tl (from_send (fetchBrasilAPI0 w cep))) = []"
    by (simp add: fetchBrasilAPI0_def Let_def split: sum.split)
  moreover have "filter (\<lambda>x. x \<noteq> BodyClose) (tl (from_send (fetchViaCEP0 w cep))) = []"
    by (simp add: fetchViaCEP0_def Let_def split: sum.split)
  ultimately show ?thesis
    using fetchBrasilAPI_facts(2) fetchViaCEP_facts(2) fetchBrasilAPI0_facts(2)
      fetchViaCEP0_facts(2) delivered[of args sched wA wB] delivered0[of args sched wA wB]
    by simp
qed

theorem lookup_task_sends_exactly_once_witness:
  "Reader \<notin> set sample_schedule \<and>
   mset (map APIName (resultChan (shr
     (run sample_schedule (launched (world_ok 250000000) world_status_404 sample_args))))) =
     {#''BrasilAPI'', ''ViaCEP''#} \<and>
   mset (map APIName (resultChan (shr
     (run sample_schedule (launched0 (world_ok 250000000) world_status_404 sample_args))))) =
     {#''BrasilAPI'', ''ViaCEP''#} \<and>
   resultChan (shr
     (run sample_schedule (launched (world_ok 250000000) world_status_404 sample_args))) =
     [\<lparr>Data = NilData, APIName = ''ViaCEP'', Error = Some (StatusCodeError 404),
        Duration = 250000000\<rparr>,
      \<lparr>Data = BrasilData sample_BrasilAPICEP, APIName = ''BrasilAPI'', Error = None,
        Duration = 250000000\<rparr>]"
proof -
  have a: "2 \<le> length sample_args" by (simp add: sample_args_def)
  have r: "Reader \<notin> set sample_schedule" by (simp add: sample_schedule_def)
  from lookup_task_sends_exactly_once[of _ _ sample_args sample_schedule "world_ok 250000000"
      world_status_404] a r sample_run0
  show ?thesis
    by (simp add: sample_run)
qed

end
